theory Spec2Isabelle
  imports Main "HOL-Library.Word"
begin

unbundle bit_operations_syntax

section \<open>Machine integers of the driver\<close>

text \<open>
  The driver (\<^verbatim>\<open>drivers/net/phy/rtl83xx-phy.c\<close>) computes with the kernel types
  \<^verbatim>\<open>u8\<close>, \<^verbatim>\<open>u16\<close>, \<^verbatim>\<open>u32\<close>, \<^verbatim>\<open>u64\<close> and with \<^verbatim>\<open>int\<close>.  A C \<^verbatim>\<open>int\<close> is
  modelled by its 32-bit two's complement pattern, read with \<open>sint\<close> where the sign
  matters, so that \<^verbatim>\<open>-EIO\<close> is the word \<open>- 5\<close> and stays what it is when the
  source assigns it to a \<^verbatim>\<open>u32\<close>.
\<close>

type_synonym u8 = "8 word"
type_synonym u16 = "16 word"
type_synonym u32 = "32 word"
type_synonym u64 = "64 word"

definition EIO :: u32 where
  "EIO = 5"

text \<open>
  Shifts by a run-time amount.  C leaves a shift by a negative amount or by 32 and more
  undefined; the target of this driver is 32-bit MIPS, whose \<^verbatim>\<open>sllv\<close> and \<^verbatim>\<open>srlv\<close>
  instructions use the low five bits of the amount, and the model does the same.
\<close>

definition shl32 :: "u32 \<Rightarrow> u32 \<Rightarrow> u32" where
  "shl32 x n = push_bit (unat (n AND 31)) x"

definition shr32 :: "u32 \<Rightarrow> u32 \<Rightarrow> u32" where
  "shr32 x n = drop_bit (unat (n AND 31)) x"

text \<open>\<^verbatim>\<open>#define BIT(nr) (1UL << (nr))\<close>, with \<^verbatim>\<open>unsigned long\<close> of 32 bits.\<close>

definition BIT :: "u32 \<Rightarrow> u32" where
  "BIT nr = shl32 1 nr"

text \<open>The remainder of C's \<^verbatim>\<open>int\<close> division, which truncates towards zero.\<close>

definition c_rem :: "u32 \<Rightarrow> u32 \<Rightarrow> u32" where
  "c_rem a b = word_of_int (sgn (sint a) * (\<bar>sint a\<bar> mod \<bar>sint b\<bar>))"

section \<open>The SoC, its register bus and the PHY back ends\<close>

text \<open>
  \<^verbatim>\<open>soc_info.family\<close> is compared with the four family identifiers of
  \<^verbatim>\<open>mach-rtl83xx.h\<close>; every \<^verbatim>\<open>switch\<close> of the driver falls through for any other
  value, which is the fifth constructor here.
\<close>

datatype family_id =
    RTL8380_FAMILY_ID
  | RTL8390_FAMILY_ID
  | RTL9300_FAMILY_ID
  | RTL9310_FAMILY_ID
  | OTHER_FAMILY_ID

record rtl83xx_soc_info =
  family :: family_id
  id_soc :: u32

text \<open>
  The addresses of the switch registers are macros of \<^verbatim>\<open>mach-rtl83xx.h\<close>.  The
  header is not part of the sources at hand, so the addresses are a parameter of every
  function that names one.
\<close>

record regmap =
  RTL838X_SMI_POLL_CTRL :: u32
  RTL839X_SMI_PORT_POLLING_CTRL :: u32
  RTL930X_SMI_POLL_CTRL :: u32
  RTL839X_SDS12_13_XSG0 :: u32
  RTL838X_DMY_REG31 :: u32
  RTL930X_SDS_INDACS_CMD :: u32
  RTL930X_SDS_INDACS_DATA :: u32
  RTL931X_SERDES_INDRT_ACCESS_CTRL :: u32
  RTL931X_SERDES_INDRT_DATA_CTRL :: u32

text \<open>
  The four families of back-end functions \<^verbatim>\<open>rtl838x_*\<close>, \<^verbatim>\<open>rtl839x_*\<close>,
  \<^verbatim>\<open>rtl930x_*\<close> and \<^verbatim>\<open>rtl931x_*\<close> that the dispatchers call.  They are declared
  \<^verbatim>\<open>extern\<close> and live in another file.
\<close>

datatype backend = RTL838X | RTL839X | RTL930X | RTL931X

text \<open>
  Everything the driver does to the world outside is an event; a run of the driver is
  the list of its events in program order.
\<close>

datatype event =
    R32 u32 u32                     \<comment> \<open>\<^verbatim>\<open>sw_r32(reg)\<close>: register, value returned\<close>
  | W32 u32 u32                     \<comment> \<open>\<^verbatim>\<open>sw_w32(val, reg)\<close>: value, register\<close>
  | Mdelay nat
  | Msleep nat
  | MutexLock
  | MutexUnlock
  | PhyRead backend u32 u32 u32        \<comment> \<open>port, page, register\<close>
  | PhyWrite backend u32 u32 u32 u32   \<comment> \<open>port, page, register, value\<close>
  | MmdRead backend u32 u32 u32        \<comment> \<open>port, device, register\<close>
  | MmdWrite backend u32 u32 u32 u32   \<comment> \<open>port, device, register, value\<close>

text \<open>
  The hardware is a state machine of an arbitrary state type \<open>'h\<close>: what a register
  read returns and how the state moves on a read, a write or a delay is up to the
  hardware.  The extern back ends are part of it: a read back end is given the current
  content of the caller's \<^verbatim>\<open>*val\<close> and returns its return code and the new content.
\<close>

record 'h hw_ops =
  hw_r32 :: "'h \<Rightarrow> u32 \<Rightarrow> u32 \<times> 'h"
  hw_w32 :: "'h \<Rightarrow> u32 \<Rightarrow> u32 \<Rightarrow> 'h"
  hw_delay :: "'h \<Rightarrow> nat \<Rightarrow> 'h"
  hw_read_phy :: "'h \<Rightarrow> backend \<Rightarrow> u32 \<Rightarrow> u32 \<Rightarrow> u32 \<Rightarrow> u32 \<Rightarrow> (u32 \<times> u32) \<times> 'h"
  hw_write_phy :: "'h \<Rightarrow> backend \<Rightarrow> u32 \<Rightarrow> u32 \<Rightarrow> u32 \<Rightarrow> u32 \<Rightarrow> u32 \<times> 'h"
  hw_read_mmd_phy :: "'h \<Rightarrow> backend \<Rightarrow> u32 \<Rightarrow> u32 \<Rightarrow> u32 \<Rightarrow> u32 \<Rightarrow> (u32 \<times> u32) \<times> 'h"
  hw_write_mmd_phy :: "'h \<Rightarrow> backend \<Rightarrow> u32 \<Rightarrow> u32 \<Rightarrow> u32 \<Rightarrow> u32 \<Rightarrow> u32 \<times> 'h"

record 'h world =
  hw :: 'h
  trace :: "event list"

definition emit :: "event \<Rightarrow> 'h \<Rightarrow> 'h world \<Rightarrow> 'h world" where
  "emit e h w = \<lparr>hw = h, trace = trace w @ [e]\<rparr>"

text \<open>
  Modelled from the spec: \<^verbatim>\<open>sw_r32\<close>, \<^verbatim>\<open>sw_w32\<close> and \<^verbatim>\<open>sw_w32_mask\<close> are macros of
  \<^verbatim>\<open>mach-rtl83xx.h\<close>, the blocking register-bus primitives \<^verbatim>\<open>busRead(addr)\<close> and
  \<^verbatim>\<open>busWrite(addr, val)\<close> of the spec; \<^verbatim>\<open>sw_w32_mask(clear, set, reg)\<close> reads the
  register, clears the bits of \<^verbatim>\<open>clear\<close>, sets those of \<^verbatim>\<open>set\<close> and writes the
  result back.
\<close>

definition sw_r32 :: "'h hw_ops \<Rightarrow> u32 \<Rightarrow> 'h world \<Rightarrow> u32 \<times> 'h world" where
  "sw_r32 H reg w =
     (case hw_r32 H (hw w) reg of (v, h) \<Rightarrow> (v, emit (R32 reg v) h w))"

definition sw_w32 :: "'h hw_ops \<Rightarrow> u32 \<Rightarrow> u32 \<Rightarrow> 'h world \<Rightarrow> 'h world" where
  "sw_w32 H val reg w = emit (W32 val reg) (hw_w32 H (hw w) reg val) w"

definition sw_w32_mask :: "'h hw_ops \<Rightarrow> u32 \<Rightarrow> u32 \<Rightarrow> u32 \<Rightarrow> 'h world \<Rightarrow> 'h world" where
  "sw_w32_mask H clear setb reg w =
     (case sw_r32 H reg w of (v, w1) \<Rightarrow> sw_w32 H ((v AND NOT clear) OR setb) reg w1)"

definition mdelay :: "'h hw_ops \<Rightarrow> nat \<Rightarrow> 'h world \<Rightarrow> 'h world" where
  "mdelay H n w = emit (Mdelay n) (hw_delay H (hw w) n) w"

definition msleep :: "'h hw_ops \<Rightarrow> nat \<Rightarrow> 'h world \<Rightarrow> 'h world" where
  "msleep H n w = emit (Msleep n) (hw_delay H (hw w) n) w"

definition mutex_lock :: "'h world \<Rightarrow> 'h world" where
  "mutex_lock w = emit MutexLock (hw w) w"

definition mutex_unlock :: "'h world \<Rightarrow> 'h world" where
  "mutex_unlock w = emit MutexUnlock (hw w) w"

text \<open>A call of an extern back end: the hardware answers, the call is recorded.\<close>

definition call_read_phy ::
  "'h hw_ops \<Rightarrow> backend \<Rightarrow> u32 \<Rightarrow> u32 \<Rightarrow> u32 \<Rightarrow> u32 \<Rightarrow> 'h world \<Rightarrow> (u32 \<times> u32) \<times> 'h world" where
  "call_read_phy H b port page reg val w =
     (case hw_read_phy H (hw w) b port page reg val of
        (r, h) \<Rightarrow> (r, emit (PhyRead b port page reg) h w))"

definition call_write_phy ::
  "'h hw_ops \<Rightarrow> backend \<Rightarrow> u32 \<Rightarrow> u32 \<Rightarrow> u32 \<Rightarrow> u32 \<Rightarrow> 'h world \<Rightarrow> u32 \<times> 'h world" where
  "call_write_phy H b port page reg val w =
     (case hw_write_phy H (hw w) b port page reg val of
        (r, h) \<Rightarrow> (r, emit (PhyWrite b port page reg val) h w))"

definition call_read_mmd_phy ::
  "'h hw_ops \<Rightarrow> backend \<Rightarrow> u32 \<Rightarrow> u32 \<Rightarrow> u32 \<Rightarrow> u32 \<Rightarrow> 'h world \<Rightarrow> (u32 \<times> u32) \<times> 'h world" where
  "call_read_mmd_phy H b port devnum regnum val w =
     (case hw_read_mmd_phy H (hw w) b port devnum regnum val of
        (r, h) \<Rightarrow> (r, emit (MmdRead b port devnum regnum) h w))"

definition call_write_mmd_phy ::
  "'h hw_ops \<Rightarrow> backend \<Rightarrow> u32 \<Rightarrow> u32 \<Rightarrow> u32 \<Rightarrow> u32 \<Rightarrow> 'h world \<Rightarrow> u32 \<times> 'h world" where
  "call_write_mmd_phy H b port devnum reg val w =
     (case hw_write_mmd_phy H (hw w) b port devnum reg val of
        (r, h) \<Rightarrow> (r, emit (MmdWrite b port devnum reg val) h w))"

section \<open>The dispatchers\<close>

text \<open>
  \<^verbatim>\<open>read_phy\<close>, \<^verbatim>\<open>write_phy\<close>, \<^verbatim>\<open>read_mmd_phy\<close> and \<^verbatim>\<open>write_mmd_phy\<close> switch on
  \<^verbatim>\<open>soc_info.family\<close> and return \<open>-1\<close> when no case matches, leaving \<^verbatim>\<open>*val\<close> as
  it was.
\<close>

definition read_phy ::
  "'h hw_ops \<Rightarrow> rtl83xx_soc_info \<Rightarrow> u32 \<Rightarrow> u32 \<Rightarrow> u32 \<Rightarrow> u32 \<Rightarrow> 'h world \<Rightarrow> (u32 \<times> u32) \<times> 'h world" where
  "read_phy H soc port page reg val w =
     (case family soc of
        RTL8380_FAMILY_ID \<Rightarrow> call_read_phy H RTL838X port page reg val w
      | RTL8390_FAMILY_ID \<Rightarrow> call_read_phy H RTL839X port page reg val w
      | RTL9300_FAMILY_ID \<Rightarrow> call_read_phy H RTL930X port page reg val w
      | RTL9310_FAMILY_ID \<Rightarrow> call_read_phy H RTL931X port page reg val w
      | OTHER_FAMILY_ID \<Rightarrow> ((- 1, val), w))"

definition write_phy ::
  "'h hw_ops \<Rightarrow> rtl83xx_soc_info \<Rightarrow> u32 \<Rightarrow> u32 \<Rightarrow> u32 \<Rightarrow> u32 \<Rightarrow> 'h world \<Rightarrow> u32 \<times> 'h world" where
  "write_phy H soc port page reg val w =
     (case family soc of
        RTL8380_FAMILY_ID \<Rightarrow> call_write_phy H RTL838X port page reg val w
      | RTL8390_FAMILY_ID \<Rightarrow> call_write_phy H RTL839X port page reg val w
      | RTL9300_FAMILY_ID \<Rightarrow> call_write_phy H RTL930X port page reg val w
      | RTL9310_FAMILY_ID \<Rightarrow> call_write_phy H RTL931X port page reg val w
      | OTHER_FAMILY_ID \<Rightarrow> (- 1, w))"

definition read_mmd_phy ::
  "'h hw_ops \<Rightarrow> rtl83xx_soc_info \<Rightarrow> u32 \<Rightarrow> u32 \<Rightarrow> u32 \<Rightarrow> u32 \<Rightarrow> 'h world \<Rightarrow> (u32 \<times> u32) \<times> 'h world" where
  "read_mmd_phy H soc port devnum regnum val w =
     (case family soc of
        RTL8380_FAMILY_ID \<Rightarrow> call_read_mmd_phy H RTL838X port devnum regnum val w
      | RTL8390_FAMILY_ID \<Rightarrow> call_read_mmd_phy H RTL839X port devnum regnum val w
      | RTL9300_FAMILY_ID \<Rightarrow> call_read_mmd_phy H RTL930X port devnum regnum val w
      | RTL9310_FAMILY_ID \<Rightarrow> call_read_mmd_phy H RTL931X port devnum regnum val w
      | OTHER_FAMILY_ID \<Rightarrow> ((- 1, val), w))"

definition write_mmd_phy ::
  "'h hw_ops \<Rightarrow> rtl83xx_soc_info \<Rightarrow> u32 \<Rightarrow> u32 \<Rightarrow> u32 \<Rightarrow> u32 \<Rightarrow> 'h world \<Rightarrow> u32 \<times> 'h world" where
  "write_mmd_phy H soc port devnum reg val w =
     (case family soc of
        RTL8380_FAMILY_ID \<Rightarrow> call_write_mmd_phy H RTL838X port devnum reg val w
      | RTL8390_FAMILY_ID \<Rightarrow> call_write_mmd_phy H RTL839X port devnum reg val w
      | RTL9300_FAMILY_ID \<Rightarrow> call_write_mmd_phy H RTL930X port devnum reg val w
      | RTL9310_FAMILY_ID \<Rightarrow> call_write_mmd_phy H RTL931X port devnum reg val w
      | OTHER_FAMILY_ID \<Rightarrow> (- 1, w))"

text \<open>
  Of \<^verbatim>\<open>struct phy_device\<close> the driver functions modelled here read the bus address
  \<^verbatim>\<open>phydev->mdio.addr\<close> only.
\<close>

record phy_device =
  mdio_addr :: u32

text \<open>
  \<^verbatim>\<open>rtl8218b_read_mmd\<close> returns the error code of the dispatcher if there is one and
  the value read otherwise; \<^verbatim>\<open>val\<close> is an uninitialised local, whose content on entry
  is the parameter \<open>val0\<close>.  \<^verbatim>\<open>rtl8218b_write_mmd\<close> calls the RTL838x back end
  directly; its \<^verbatim>\<open>u16\<close> arguments are widened to the \<^verbatim>\<open>u32\<close> parameters.
\<close>

definition rtl8218b_read_mmd ::
  "'h hw_ops \<Rightarrow> rtl83xx_soc_info \<Rightarrow> phy_device \<Rightarrow> u32 \<Rightarrow> u16 \<Rightarrow> u32 \<Rightarrow> 'h world \<Rightarrow> u32 \<times> 'h world" where
  "rtl8218b_read_mmd H soc phydev devnum regnum val0 w =
     (let addr = mdio_addr phydev in
      case read_mmd_phy H soc addr devnum (ucast regnum) val0 w of
        ((ret, val), w1) \<Rightarrow> if ret \<noteq> 0 then (ret, w1) else (val, w1))"

definition rtl8218b_write_mmd ::
  "'h hw_ops \<Rightarrow> phy_device \<Rightarrow> u32 \<Rightarrow> u16 \<Rightarrow> u16 \<Rightarrow> 'h world \<Rightarrow> u32 \<times> 'h world" where
  "rtl8218b_write_mmd H phydev devnum regnum val w =
     (let addr = mdio_addr phydev in
      call_write_mmd_phy H RTL838X addr devnum (ucast regnum) (ucast val) w)"

text \<open>The back end an event went through, if it is a call of one.\<close>

fun backend_of :: "event \<Rightarrow> backend option" where
  "backend_of (PhyRead b _ _ _) = Some b"
| "backend_of (PhyWrite b _ _ _ _) = Some b"
| "backend_of (MmdRead b _ _ _) = Some b"
| "backend_of (MmdWrite b _ _ _ _) = Some b"
| "backend_of _ = None"

text \<open>The back end that \<^verbatim>\<open>read_mmd_phy\<close> selects for a family.\<close>

fun backend_for :: "family_id \<Rightarrow> backend option" where
  "backend_for RTL8380_FAMILY_ID = Some RTL838X"
| "backend_for RTL8390_FAMILY_ID = Some RTL839X"
| "backend_for RTL9300_FAMILY_ID = Some RTL930X"
| "backend_for RTL9310_FAMILY_ID = Some RTL931X"
| "backend_for OTHER_FAMILY_ID = None"

section \<open>SerDes access of the RTL839x: the shadow register\<close>

text \<open>
  \<^verbatim>\<open>rtl839x_read_sds_phy(int phy_addr, int phy_reg)\<close>.  The two early returns come
  before any register access.
\<close>

definition rtl839x_read_sds_phy ::
  "'h hw_ops \<Rightarrow> rtl83xx_soc_info \<Rightarrow> regmap \<Rightarrow> u32 \<Rightarrow> u32 \<Rightarrow> 'h world \<Rightarrow> u32 \<times> 'h world" where
  "rtl839x_read_sds_phy H soc m phy_addr phy_reg w =
     (let offset = (if phy_addr = 49 then 0x100 else 0) in
      if id_soc soc = 0x8393 \<and> phy_reg = 2 then (0x1c, w)
      else if id_soc soc = 0x8393 \<and> phy_reg = 3 then (0x8393, w)
      else
        let reg = push_bit 1 phy_reg AND 0xfc in
        case sw_r32 H (RTL839X_SDS12_13_XSG0 m + offset + 0x80 + reg) w of
          (val, w1) \<Rightarrow>
            if phy_reg AND 1 \<noteq> 0 then (drop_bit 16 val AND 0xffff, w1)
            else (val AND 0xffff, w1))"

section \<open>SerDes access of the RTL930x and RTL931x: the indirect protocol\<close>

text \<open>
  The four functions wait for the command register with the same loop:
  \<^verbatim>\<open>
  for (i = 0; i < 100; i++) {
          if (!(sw_r32(CMD) & 0x1))
                  break;
          mdelay(1);
  }
  \<close>
  \<open>sds_poll\<close> is that loop, started with the counter at \<open>i\<close>; it returns the counter
  with which the loop was left.
\<close>

function sds_poll :: "'h hw_ops \<Rightarrow> u32 \<Rightarrow> nat \<Rightarrow> 'h world \<Rightarrow> nat \<times> 'h world" where
  "sds_poll H reg i w =
     (if i < 100 then
        (case sw_r32 H reg w of
           (v, w1) \<Rightarrow>
             if v AND 1 = 0 then (i, w1)
             else sds_poll H reg (i + 1) (mdelay H 1 w1))
      else (i, w))"
  by pat_completeness auto
termination
  by (relation "measure (\<lambda>(H, reg, i, w). 100 - i)") auto

declare sds_poll.simps [simp del]

text \<open>
  Before it returns, an indirect read prints the data register:
  \<^verbatim>\<open>pr_debug("%s: returning %04x\n", __func__, sw_r32(DATA) & 0xffff)\<close>.  The kernel
  evaluates the arguments of \<^verbatim>\<open>pr_debug\<close> only where debug output is compiled in
  and enabled; \<open>dbg\<close> says whether it is.  The value read is printed and dropped.
\<close>

definition pr_debug_r32 :: "'h hw_ops \<Rightarrow> bool \<Rightarrow> u32 \<Rightarrow> 'h world \<Rightarrow> 'h world" where
  "pr_debug_r32 H dbg reg w = (if dbg then snd (sw_r32 H reg w) else w)"

text \<open>\<^verbatim>\<open>int rtl930x_read_sds_phy(int phy_addr, int page, int phy_reg)\<close>.\<close>

definition rtl930x_read_sds_phy ::
  "'h hw_ops \<Rightarrow> regmap \<Rightarrow> bool \<Rightarrow> u32 \<Rightarrow> u32 \<Rightarrow> u32 \<Rightarrow> 'h world \<Rightarrow> u32 \<times> 'h world" where
  "rtl930x_read_sds_phy H m dbg phy_addr page phy_reg w =
     (let cmd = push_bit 2 phy_addr OR push_bit 7 page OR push_bit 13 phy_reg OR 1;
          w1 = sw_w32 H cmd (RTL930X_SDS_INDACS_CMD m) w
      in case sds_poll H (RTL930X_SDS_INDACS_CMD m) 0 w1 of
           (i, w2) \<Rightarrow>
             if i \<ge> 100 then (- EIO, w2)
             else (case sw_r32 H (RTL930X_SDS_INDACS_DATA m)
                          (pr_debug_r32 H dbg (RTL930X_SDS_INDACS_DATA m) w2) of
                     (d, w3) \<Rightarrow> (d AND 0xffff, w3)))"

text \<open>
  \<^verbatim>\<open>int rtl930x_write_sds_phy(int phy_addr, int page, int phy_reg, u16 v)\<close>.  The
  source computes \<^verbatim>\<open>cmd\<close> and does nothing with it: there is no
  \<^verbatim>\<open>sw_w32(cmd, RTL930X_SDS_INDACS_CMD)\<close>.
\<close>

definition rtl930x_write_sds_phy ::
  "'h hw_ops \<Rightarrow> regmap \<Rightarrow> u32 \<Rightarrow> u32 \<Rightarrow> u32 \<Rightarrow> u16 \<Rightarrow> 'h world \<Rightarrow> u32 \<times> 'h world" where
  "rtl930x_write_sds_phy H m phy_addr page phy_reg v w =
     (let w1 = sw_w32 H (ucast v) (RTL930X_SDS_INDACS_DATA m) w;
          cmd = push_bit 2 phy_addr OR push_bit 7 page OR push_bit 13 phy_reg OR 0x3
      in case sds_poll H (RTL930X_SDS_INDACS_CMD m) 0 w1 of
           (i, w2) \<Rightarrow> if i \<ge> 100 then (- EIO, w2) else (0, w2))"


text \<open>
  \<^verbatim>\<open>int rtl931x_write_sds_phy(int phy_addr, int page, int phy_reg, u16 v)\<close>: the
  address is written to the command register first, then the data, then the command
  register is read back and written again with the two low bits set.
\<close>

definition rtl931x_write_sds_phy ::
  "'h hw_ops \<Rightarrow> regmap \<Rightarrow> u32 \<Rightarrow> u32 \<Rightarrow> u32 \<Rightarrow> u16 \<Rightarrow> 'h world \<Rightarrow> u32 \<times> 'h world" where
  "rtl931x_write_sds_phy H m phy_addr page phy_reg v w =
     (let cmd = push_bit 2 phy_addr OR push_bit 7 page OR push_bit 13 phy_reg;
          w1 = sw_w32 H cmd (RTL931X_SERDES_INDRT_ACCESS_CTRL m) w;
          w2 = sw_w32 H (ucast v) (RTL931X_SERDES_INDRT_DATA_CTRL m) w1
      in case sw_r32 H (RTL931X_SERDES_INDRT_ACCESS_CTRL m) w2 of
           (c, w3) \<Rightarrow>
             (let cmd = c OR 0x3;
                  w4 = sw_w32 H cmd (RTL931X_SERDES_INDRT_ACCESS_CTRL m) w3
              in case sds_poll H (RTL931X_SERDES_INDRT_ACCESS_CTRL m) 0 w4 of
                   (i, w5) \<Rightarrow> if i \<ge> 100 then (- EIO, w5) else (0, w5)))"

text \<open>
  The events of the rounds of the loop that found the start bit set, by the values
  they read: the read and the delay.
\<close>

fun busy_polls :: "u32 \<Rightarrow> u32 list \<Rightarrow> event list" where
  "busy_polls reg [] = []"
| "busy_polls reg (v # vs) = R32 reg v # Mdelay 1 # busy_polls reg vs"

text \<open>
  A model of the SerDes behind a pair of indirect access registers, as the protocol
  of the spec has it.  A write to the data register is latched.  A write to the
  command register with the start bit (bit 0) set executes the command: with the
  direction bit (bit 1) set the latched data goes to the SerDes register that the
  bits above select, otherwise that SerDes register goes to the data register.  The
  start bit then reads as set for \<open>sds_latency\<close> reads of the command register.
\<close>

record sds_hw =
  sds_cmd :: u32
  sds_data :: u32
  sds_busy :: nat
  sds_latency :: nat
  sds_regs :: "u32 \<Rightarrow> u16"

definition sds_ops :: "u32 \<Rightarrow> u32 \<Rightarrow> sds_hw hw_ops" where
  "sds_ops cmdreg datareg =
     \<lparr>hw_r32 = (\<lambda>h a.
        if a = cmdreg then
          (if sds_busy h > 0 then (sds_cmd h OR 1, h\<lparr>sds_busy := sds_busy h - 1\<rparr>)
           else (sds_cmd h AND NOT 1, h))
        else if a = datareg then (sds_data h, h)
        else (0, h)),
      hw_w32 = (\<lambda>h a v.
        if a = cmdreg then
          (if v AND 1 = 0 then h\<lparr>sds_cmd := v\<rparr>
           else if v AND 2 \<noteq> 0 then
             h\<lparr>sds_cmd := v, sds_busy := sds_latency h,
               sds_regs := (sds_regs h)(drop_bit 2 v := ucast (sds_data h))\<rparr>
           else
             h\<lparr>sds_cmd := v, sds_busy := sds_latency h,
               sds_data := ucast (sds_regs h (drop_bit 2 v))\<rparr>)
        else if a = datareg then h\<lparr>sds_data := v\<rparr>
        else h),
      hw_delay = (\<lambda>h n. h),
      hw_read_phy = (\<lambda>h b port page reg val. ((0, val), h)),
      hw_write_phy = (\<lambda>h b port page reg val. (0, h)),
      hw_read_mmd_phy = (\<lambda>h b port devnum regnum val. ((0, val), h)),
      hw_write_mmd_phy = (\<lambda>h b port devnum reg val. (0, h))\<rparr>"

text \<open>
  The SerDes idle, with the register content \<open>regs\<close>, answering after \<open>n\<close> polls,
  and nothing done yet.
\<close>

definition sds_init :: "nat \<Rightarrow> (u32 \<Rightarrow> u16) \<Rightarrow> sds_hw world" where
  "sds_init n regs =
     \<lparr>hw = \<lparr>sds_cmd = 0, sds_data = 0, sds_busy = 0, sds_latency = n, sds_regs = regs\<rparr>,
      trace = []\<rparr>"

text \<open>
  What a run of an indirect read may look like, by its events \<open>evs\<close> and its return
  value \<open>ret\<close>: the command is written; then the command register is read, with a
  delay of 1 ms after every read that finds the start bit set; after 100 such reads
  the run is over with \<^verbatim>\<open>-EIO\<close>; after a read that finds the start bit clear, which
  is the 100th read at the latest, the data register is read (once more before that
  where debug output is on) and the low 16 bits of the value read last are returned.
\<close>

definition indirect_read_run ::
  "u32 \<Rightarrow> u32 \<Rightarrow> u32 \<Rightarrow> bool \<Rightarrow> event list \<Rightarrow> u32 \<Rightarrow> bool" where
  "indirect_read_run cmdreg datareg cmd dbg evs ret \<longleftrightarrow>
     (\<exists>vs. list_all (\<lambda>v. v AND 1 \<noteq> 0) vs \<and>
        (length vs = 100 \<and> ret = - EIO \<and> evs = W32 cmd cmdreg # busy_polls cmdreg vs \<or>
         length vs < 100 \<and>
           (\<exists>v d0 d. v AND 1 = 0 \<and> ret = d AND 0xffff \<and>
              evs = W32 cmd cmdreg # busy_polls cmdreg vs @ [R32 cmdreg v]
                      @ (if dbg then [R32 datareg d0] else []) @ [R32 datareg d])))"

section \<open>Concrete hardware for running the model\<close>

text \<open>The events a run added to the trace.\<close>

definition events_of :: "'h world \<Rightarrow> 'h world \<Rightarrow> event list" where
  "events_of w w1 = drop (length (trace w)) (trace w1)"

text \<open>
  A register file: every register keeps what was written to it and is not changed by
  anything else.  The back ends answer 0 and leave \<^verbatim>\<open>*val\<close> alone.
\<close>

definition ram_ops :: "(u32 \<Rightarrow> u32) hw_ops" where
  "ram_ops =
     \<lparr>hw_r32 = (\<lambda>h a. (h a, h)),
      hw_w32 = (\<lambda>h a v. h(a := v)),
      hw_delay = (\<lambda>h n. h),
      hw_read_phy = (\<lambda>h b port page reg val. ((0, val), h)),
      hw_write_phy = (\<lambda>h b port page reg val. (0, h)),
      hw_read_mmd_phy = (\<lambda>h b port devnum regnum val. ((0, val), h)),
      hw_write_mmd_phy = (\<lambda>h b port devnum reg val. (0, h))\<rparr>"

text \<open>A register map with pairwise distinct addresses, to run the model on.\<close>

definition example_regmap :: regmap where
  "example_regmap =
     \<lparr>RTL838X_SMI_POLL_CTRL = 0xa17c,
      RTL839X_SMI_PORT_POLLING_CTRL = 0x03fc,
      RTL930X_SMI_POLL_CTRL = 0xca90,
      RTL839X_SDS12_13_XSG0 = 0xb800,
      RTL838X_DMY_REG31 = 0x3b28,
      RTL930X_SDS_INDACS_CMD = 0x03b0,
      RTL930X_SDS_INDACS_DATA = 0x03b4,
      RTL931X_SERDES_INDRT_ACCESS_CTRL = 0x5638,
      RTL931X_SERDES_INDRT_DATA_CTRL = 0x563c\<rparr>"

definition soc_rtl8393 :: rtl83xx_soc_info where
  "soc_rtl8393 = \<lparr>family = RTL8390_FAMILY_ID, id_soc = 0x8393\<rparr>"

definition soc_rtl9300 :: rtl83xx_soc_info where
  "soc_rtl9300 = \<lparr>family = RTL9300_FAMILY_ID, id_soc = 0x9300\<rparr>"

text \<open>All polling enabled: a register file with all bits of all registers set.\<close>

definition ram_ones :: "(u32 \<Rightarrow> u32) world" where
  "ram_ones = \<lparr>hw = (\<lambda>a. 0xffffffff), trace = []\<rparr>"

definition soc_rtl8390 :: rtl83xx_soc_info where
  "soc_rtl8390 = \<lparr>family = RTL8390_FAMILY_ID, id_soc = 0x8391\<rparr>"

definition soc_rtl9310 :: rtl83xx_soc_info where
  "soc_rtl9310 = \<lparr>family = RTL9310_FAMILY_ID, id_soc = 0x9310\<rparr>"

text \<open>A register file with all registers 0, and nothing done yet.\<close>

definition ram0 :: "(u32 \<Rightarrow> u32) world" where
  "ram0 = \<lparr>hw = (\<lambda>a. 0), trace = []\<rparr>"

text \<open>A register file with 0x12345678 in every register, and nothing done yet.\<close>

definition ram_word :: "(u32 \<Rightarrow> u32) world" where
  "ram_word = \<lparr>hw = (\<lambda>a. 0x12345678), trace = []\<rparr>"

text \<open>
  Back ends whose state counts the calls made to them.  The extended-register write
  fails with \<^verbatim>\<open>-EIO\<close>; the extended-register read succeeds and stores 0x1234.
\<close>

definition mmd_ops :: "nat hw_ops" where
  "mmd_ops =
     \<lparr>hw_r32 = (\<lambda>h a. (0, h)),
      hw_w32 = (\<lambda>h a v. h),
      hw_delay = (\<lambda>h n. h),
      hw_read_phy = (\<lambda>h b port page reg val. ((0, val), Suc h)),
      hw_write_phy = (\<lambda>h b port page reg val. (0, Suc h)),
      hw_read_mmd_phy = (\<lambda>h b port devnum regnum val. ((0, 0x1234), Suc h)),
      hw_write_mmd_phy = (\<lambda>h b port devnum reg val. (- EIO, Suc h))\<rparr>"

definition mmd0 :: "nat world" where
  "mmd0 = \<lparr>hw = 0, trace = []\<rparr>"

section \<open>Bit fields of SerDes registers on the RTL9300\<close>

text \<open>
  \<^verbatim>\<open>void rtl9300_sds_field_w(int sds, u32 page, u32 reg, int end_bit, int start_bit, u32 v)\<close>
  and
  \<^verbatim>\<open>u32 rtl9300_sds_field_r(int sds, u32 page, u32 reg, int end_bit, int start_bit)\<close>.
  The length is \<^verbatim>\<open>int l = end_bit - start_bit - 1\<close>, compared as a signed number;
  the return value of the read goes into a \<^verbatim>\<open>u32\<close> unchecked, and the \<^verbatim>\<open>u32\<close>
  data is cut to the \<^verbatim>\<open>u16\<close> parameter of the write.
\<close>

definition rtl9300_sds_field_w ::
  "'h hw_ops \<Rightarrow> regmap \<Rightarrow> bool \<Rightarrow> u32 \<Rightarrow> u32 \<Rightarrow> u32 \<Rightarrow> u32 \<Rightarrow> u32 \<Rightarrow> u32 \<Rightarrow> 'h world \<Rightarrow> 'h world" where
  "rtl9300_sds_field_w H m dbg sds page reg end_bit start_bit v w =
     (let l = end_bit - start_bit - 1 in
      if l <s 32 then
        (let mask = BIT l - 1 in
         case rtl930x_read_sds_phy H m dbg sds page reg w of
           (data, w1) \<Rightarrow>
             (let data = data AND NOT (shl32 mask start_bit);
                  data = data OR shl32 (v AND mask) start_bit
              in snd (rtl930x_write_sds_phy H m sds page reg (ucast data) w1)))
      else snd (rtl930x_write_sds_phy H m sds page reg (ucast v) w))"

definition rtl9300_sds_field_r ::
  "'h hw_ops \<Rightarrow> regmap \<Rightarrow> bool \<Rightarrow> u32 \<Rightarrow> u32 \<Rightarrow> u32 \<Rightarrow> u32 \<Rightarrow> u32 \<Rightarrow> 'h world \<Rightarrow> u32 \<times> 'h world" where
  "rtl9300_sds_field_r H m dbg sds page reg end_bit start_bit w =
     (let l = end_bit - start_bit - 1 in
      case rtl930x_read_sds_phy H m dbg sds page reg w of
        (v, w1) \<Rightarrow>
          if 32 \<le>s l then (v, w1)
          else (shr32 v start_bit AND (BIT l - 1), w1))"

section \<open>Suspending and resuming the polling of the PHYs\<close>

text \<open>
  \<^verbatim>\<open>static u64 disable_polling(int port)\<close>.  \<^verbatim>\<open>saved_state\<close> is an uninitialised
  local; its content on entry is the parameter \<open>saved0\<close>, which is what the function
  returns for the RTL9310 (where it only warns) and for an unknown family.  On the
  RTL8390 the high half is read first.  \<^verbatim>\<open>port >> 5\<close> is an arithmetic shift of an
  \<^verbatim>\<open>int\<close>.
\<close>

definition disable_polling ::
  "'h hw_ops \<Rightarrow> rtl83xx_soc_info \<Rightarrow> regmap \<Rightarrow> u32 \<Rightarrow> u64 \<Rightarrow> 'h world \<Rightarrow> u64 \<times> 'h world" where
  "disable_polling H soc m port saved0 w =
     (let w1 = mutex_lock w in
      case family soc of
        RTL8380_FAMILY_ID \<Rightarrow>
          (case sw_r32 H (RTL838X_SMI_POLL_CTRL m) w1 of
             (v, w2) \<Rightarrow>
               (let saved_state = ucast v;
                    w3 = sw_w32_mask H (BIT port) 0 (RTL838X_SMI_POLL_CTRL m) w2
                in (saved_state, mutex_unlock w3)))
      | RTL8390_FAMILY_ID \<Rightarrow>
          (case sw_r32 H (RTL839X_SMI_PORT_POLLING_CTRL m + 4) w1 of
             (hi, w2) \<Rightarrow>
               (let saved_state = ucast hi;
                    saved_state = push_bit 32 saved_state
                in case sw_r32 H (RTL839X_SMI_PORT_POLLING_CTRL m) w2 of
                     (lo, w3) \<Rightarrow>
                       (let saved_state = saved_state OR ucast lo;
                            w4 = sw_w32_mask H (BIT (c_rem port 32)) 0
                                   (RTL839X_SMI_PORT_POLLING_CTRL m
                                      + push_bit 2 (signed_drop_bit 5 port)) w3
                        in (saved_state, mutex_unlock w4))))
      | RTL9300_FAMILY_ID \<Rightarrow>
          (case sw_r32 H (RTL930X_SMI_POLL_CTRL m) w1 of
             (v, w2) \<Rightarrow>
               (let saved_state = ucast v;
                    w3 = sw_w32_mask H (BIT port) 0 (RTL930X_SMI_POLL_CTRL m) w2
                in (saved_state, mutex_unlock w3)))
      | RTL9310_FAMILY_ID \<Rightarrow> (saved0, mutex_unlock w1)
      | OTHER_FAMILY_ID \<Rightarrow> (saved0, mutex_unlock w1))"

text \<open>
  \<^verbatim>\<open>static int resume_polling(u64 saved_state)\<close>; \<^verbatim>\<open>sw_w32\<close> takes the low 32 bits
  of its \<^verbatim>\<open>u64\<close> argument.
\<close>

definition resume_polling ::
  "'h hw_ops \<Rightarrow> rtl83xx_soc_info \<Rightarrow> regmap \<Rightarrow> u64 \<Rightarrow> 'h world \<Rightarrow> u32 \<times> 'h world" where
  "resume_polling H soc m saved_state w =
     (let w1 = mutex_lock w;
          w2 = (case family soc of
                  RTL8380_FAMILY_ID \<Rightarrow>
                    sw_w32 H (ucast saved_state) (RTL838X_SMI_POLL_CTRL m) w1
                | RTL8390_FAMILY_ID \<Rightarrow>
                    sw_w32 H (ucast saved_state) (RTL839X_SMI_PORT_POLLING_CTRL m)
                      (sw_w32 H (ucast (drop_bit 32 saved_state))
                         (RTL839X_SMI_PORT_POLLING_CTRL m + 4) w1)
                | RTL9300_FAMILY_ID \<Rightarrow>
                    sw_w32 H (ucast saved_state) (RTL930X_SMI_POLL_CTRL m) w1
                | RTL9310_FAMILY_ID \<Rightarrow> w1
                | OTHER_FAMILY_ID \<Rightarrow> w1)
      in (0, mutex_unlock w2))"

text \<open>
  The registers that \<^verbatim>\<open>disable_polling\<close> saves for a family: one register on the
  RTL8380 and the RTL9300, the two halves of the port mask on the RTL8390, none on the
  RTL9310.
\<close>

definition polling_regs :: "family_id \<Rightarrow> regmap \<Rightarrow> u32 list" where
  "polling_regs f m =
     (case f of
        RTL8380_FAMILY_ID \<Rightarrow> [RTL838X_SMI_POLL_CTRL m]
      | RTL8390_FAMILY_ID \<Rightarrow>
          [RTL839X_SMI_PORT_POLLING_CTRL m, RTL839X_SMI_PORT_POLLING_CTRL m + 4]
      | RTL9300_FAMILY_ID \<Rightarrow> [RTL930X_SMI_POLL_CTRL m]
      | RTL9310_FAMILY_ID \<Rightarrow> []
      | OTHER_FAMILY_ID \<Rightarrow> [])"

section \<open>The firmware image\<close>

text \<open>
  \<^verbatim>\<open>struct fw_header\<close> is declared in \<^verbatim>\<open>rtl83xx-phy.h\<close>, which is not part of the
  sources at hand.  The driver uses its size, its fields \<^verbatim>\<open>magic\<close>, \<^verbatim>\<open>checksum\<close>
  and \<^verbatim>\<open>phy\<close> (32 bits each) and the 16-bit field \<^verbatim>\<open>start\<close> of the elements of
  its array \<^verbatim>\<open>parts\<close>, of which it reads \<^verbatim>\<open>parts[0]\<close> to \<^verbatim>\<open>parts[9]\<close>.  The
  layout of the structure is a parameter.
\<close>

record fw_layout =
  sizeof_fw_header :: nat
  offsetof_magic :: nat
  offsetof_phy :: nat
  offsetof_checksum :: nat
  offsetof_parts :: nat
  sizeof_part :: nat

text \<open>
  What C guarantees of any such structure: the fields lie inside it, and \<^verbatim>\<open>magic\<close>
  and \<^verbatim>\<open>checksum\<close> do not overlap.
\<close>

definition layout_ok :: "fw_layout \<Rightarrow> bool" where
  "layout_ok L \<longleftrightarrow>
     offsetof_magic L + 4 \<le> sizeof_fw_header L \<and>
     offsetof_phy L + 4 \<le> sizeof_fw_header L \<and>
     offsetof_checksum L + 4 \<le> sizeof_fw_header L \<and>
     offsetof_parts L + 10 * sizeof_part L \<le> sizeof_fw_header L \<and>
     2 \<le> sizeof_part L \<and>
     (offsetof_magic L + 4 \<le> offsetof_checksum L \<or>
      offsetof_checksum L + 4 \<le> offsetof_magic L)"

text \<open>
  The SoCs are big-endian MIPS, and the header is the firmware buffer itself
  (\<^verbatim>\<open>h = (struct fw_header *) fw->data\<close>): a field is read from the bytes at
  its offset, most significant byte first, and written the same way.  The driver
  reads header fields after it has checked that the buffer holds a whole header.
\<close>

definition be16 :: "u8 list \<Rightarrow> nat \<Rightarrow> u16" where
  "be16 bs off = foldl (\<lambda>acc b. push_bit 8 acc OR ucast b) 0 (take 2 (drop off bs))"

definition be32 :: "u8 list \<Rightarrow> nat \<Rightarrow> u32" where
  "be32 bs off = foldl (\<lambda>acc b. push_bit 8 acc OR ucast b) 0 (take 4 (drop off bs))"

definition be_bytes :: "u32 \<Rightarrow> u8 list" where
  "be_bytes v = [ucast (drop_bit 24 v), ucast (drop_bit 16 v), ucast (drop_bit 8 v), ucast v]"

definition set_be32 :: "u8 list \<Rightarrow> nat \<Rightarrow> u32 \<Rightarrow> u8 list" where
  "set_be32 bs off v = take off bs @ be_bytes v @ drop (off + 4) bs"

text \<open>
  The kernel's \<^verbatim>\<open>crc32(seed, data, len)\<close>, which is \<^verbatim>\<open>crc32_le\<close>: the reflected
  CRC-32 with the polynomial 0xedb88320, bit by bit, without the initial and the
  final complement, which are the caller's.
\<close>

definition crc32_bit :: "u32 \<Rightarrow> u32" where
  "crc32_bit c = drop_bit 1 c XOR (if c AND 1 \<noteq> 0 then 0xedb88320 else 0)"

definition crc32_byte :: "u32 \<Rightarrow> u8 \<Rightarrow> u32" where
  "crc32_byte c b =
     crc32_bit (crc32_bit (crc32_bit (crc32_bit
       (crc32_bit (crc32_bit (crc32_bit (crc32_bit (c XOR ucast b))))))))"

definition crc32 :: "u32 \<Rightarrow> u8 list \<Rightarrow> u32" where
  "crc32 seed bs = foldl crc32_byte seed bs"

text \<open>
  \<^verbatim>\<open>rtl838x_request_fw\<close>.  \<^verbatim>\<open>request_firmware\<close> is the kernel's loader; its
  outcome is the argument: the error code and, if that is not negative, the bytes of
  the image.  The result is whether the function returned the header (\<open>True\<close>) or
  \<^verbatim>\<open>NULL\<close> (\<open>False\<close>), and the content of the firmware buffer when it returns.  On
  a checksum mismatch the function leaves through \<^verbatim>\<open>goto out\<close> before the statement
  \<^verbatim>\<open>h->checksum = checksum\<close>.
\<close>

definition rtl838x_request_fw :: "fw_layout \<Rightarrow> u32 \<times> u8 list \<Rightarrow> bool \<times> u8 list" where
  "rtl838x_request_fw L req =
     (case req of
        (err, data) \<Rightarrow>
          if err <s 0 then (False, data)
          else if length data < sizeof_fw_header L then (False, data)
          else if be32 data (offsetof_magic L) \<noteq> 0x83808380 then (False, data)
          else
            (let checksum = be32 data (offsetof_checksum L);
                 data1 = set_be32 data (offsetof_checksum L) 0;
                 my_checksum = NOT (crc32 0xFFFFFFFF data1)
             in if checksum \<noteq> my_checksum then (False, data1)
                else (True, set_be32 data1 (offsetof_checksum L) checksum)))"

text \<open>
  The layout \<^verbatim>\<open>{u32 magic; u32 phy; u32 checksum; u32 version; struct part parts[10];}\<close>
  with parts of four bytes that begin with \<^verbatim>\<open>start\<close>, to run the model on.
\<close>

definition example_layout :: fw_layout where
  "example_layout =
     \<lparr>sizeof_fw_header = 56, offsetof_magic = 0, offsetof_phy = 4, offsetof_checksum = 8,
      offsetof_parts = 16, sizeof_part = 4\<rparr>"

section \<open>The patch sequencer\<close>

text \<open>
  \<^verbatim>\<open>h->parts[k].start\<close>, and the region \<open>k\<close> of the image as the driver sees it:
  \<^verbatim>\<open>(void *)h + sizeof(struct fw_header) + h->parts[k].start\<close>, used as an array of
  \<^verbatim>\<open>u32\<close>.  \<open>fw_region\<close> is the list of the words from there to the end of the
  buffer.
\<close>

definition part_start :: "fw_layout \<Rightarrow> u8 list \<Rightarrow> nat \<Rightarrow> u16" where
  "part_start L data k = be16 data (offsetof_parts L + k * sizeof_part L)"

fun words_of :: "u8 list \<Rightarrow> u32 list" where
  "words_of (a # b # c # d # rest) = be32 [a, b, c, d] 0 # words_of rest"
| "words_of _ = []"

definition fw_region :: "fw_layout \<Rightarrow> u8 list \<Rightarrow> nat \<Rightarrow> u32 list" where
  "fw_region L data k = words_of (drop (sizeof_fw_header L + unat (part_start L data k)) data)"

text \<open>
  The loop over a list of (register, value) pairs,
  \<^verbatim>\<open>
  i = 0;
  while (list[i * 2]) {
          write_phy(port, 0xfff, list[i * 2], list[i * 2 + 1]);
          i++;
  }
  \<close>
  on the words from \<^verbatim>\<open>list\<close> to the end of the buffer.  The return values of
  \<^verbatim>\<open>write_phy\<close> are dropped.  A read behind the end of the buffer is undefined in C;
  it is \<open>None\<close> here.
\<close>

fun write_list_pairs ::
  "'h hw_ops \<Rightarrow> rtl83xx_soc_info \<Rightarrow> u32 \<Rightarrow> u32 list \<Rightarrow> 'h world \<Rightarrow> 'h world option" where
  "write_list_pairs H soc port [] w = None"
| "write_list_pairs H soc port [r] w = (if r = 0 then Some w else None)"
| "write_list_pairs H soc port (r # v # rest) w =
     (if r = 0 then Some w
      else write_list_pairs H soc port rest (snd (write_phy H soc port 0xfff r v w)))"

text \<open>
  The loop over the list of (port offset, register, value) triples,
  \<^verbatim>\<open>
  i = 0;
  while (list[i * 3] && list[i * 3 + 1]) {
          write_phy(mac + list[i * 3], 0xfff, list[i * 3 + 1], list[i * 3 + 2]);
          i++;
  }
  \<close>
  where \<^verbatim>\<open>&&\<close> does not read the register when the offset is 0.
\<close>

fun write_list_triples ::
  "'h hw_ops \<Rightarrow> rtl83xx_soc_info \<Rightarrow> u32 \<Rightarrow> u32 list \<Rightarrow> 'h world \<Rightarrow> 'h world option" where
  "write_list_triples H soc mac [] w = None"
| "write_list_triples H soc mac [p] w = (if p = 0 then Some w else None)"
| "write_list_triples H soc mac [p, r] w = (if p = 0 \<or> r = 0 then Some w else None)"
| "write_list_triples H soc mac (p # r # v # rest) w =
     (if p = 0 \<or> r = 0 then Some w
      else write_list_triples H soc mac rest (snd (write_phy H soc (mac + p) 0xfff r v w)))"

text \<open>
  \<^verbatim>\<open>rtl8380_int_phy_on_off\<close> and \<^verbatim>\<open>rtl8380_phy_reset\<close>; \<open>val0\<close> is what their
  uninitialised local \<^verbatim>\<open>val\<close> holds on entry.
\<close>

definition rtl8380_int_phy_on_off ::
  "'h hw_ops \<Rightarrow> rtl83xx_soc_info \<Rightarrow> u32 \<Rightarrow> bool \<Rightarrow> u32 \<Rightarrow> 'h world \<Rightarrow> 'h world" where
  "rtl8380_int_phy_on_off H soc mac on val0 w =
     (case read_phy H soc mac 0 0 val0 w of
        ((ret, val), w1) \<Rightarrow>
          if on then snd (write_phy H soc mac 0 0 (val AND NOT (BIT 11)) w1)
          else snd (write_phy H soc mac 0 0 (val OR BIT 11) w1))"

definition rtl8380_phy_reset ::
  "'h hw_ops \<Rightarrow> rtl83xx_soc_info \<Rightarrow> u32 \<Rightarrow> u32 \<Rightarrow> 'h world \<Rightarrow> 'h world" where
  "rtl8380_phy_reset H soc mac val0 w =
     (case read_phy H soc mac 0 0 val0 w of
        ((ret, val), w1) \<Rightarrow> snd (write_phy H soc mac 0 0 (val OR BIT 15) w1))"

text \<open>
  The two loops over the eight ports of a package that write two registers of each
  port: \<^verbatim>\<open>write_phy(mac + i, 0xfff, r1, v1); write_phy(mac + i, 0xfff, r2, v2);\<close>.
\<close>

definition write_two_each ::
  "'h hw_ops \<Rightarrow> rtl83xx_soc_info \<Rightarrow> u32 \<Rightarrow> u32 \<Rightarrow> u32 \<Rightarrow> u32 \<Rightarrow> u32 \<Rightarrow> 'h world \<Rightarrow> 'h world" where
  "write_two_each H soc mac r1 v1 r2 v2 w =
     fold (\<lambda>i w. snd (write_phy H soc (mac + of_nat i) 0xfff r2 v2
                        (snd (write_phy H soc (mac + of_nat i) 0xfff r1 v1 w))))
          [0..<8] w"

text \<open>
  The readiness check,
  \<^verbatim>\<open>
  for (i = 0; i < 8; i++) {
          for (l = 0; l < 100; l++) {
                  read_phy(mac + i, 0xb80, 0x10, &val);
                  if (val & 0x40)
                          break;
          }
          if (l >= 100)
                  return -1;
  }
  \<close>
  \<open>patch_ready_poll\<close> is the inner loop, \<open>patch_ready\<close> the outer one over the ports
  that are left; its result says whether all of them were ready.
\<close>

function patch_ready_poll ::
  "'h hw_ops \<Rightarrow> rtl83xx_soc_info \<Rightarrow> u32 \<Rightarrow> nat \<Rightarrow> u32 \<Rightarrow> 'h world \<Rightarrow> nat \<times> u32 \<times> 'h world" where
  "patch_ready_poll H soc port l val w =
     (if l < 100 then
        (case read_phy H soc port 0xb80 0x10 val w of
           ((ret, val1), w1) \<Rightarrow>
             if val1 AND 0x40 \<noteq> 0 then (l, val1, w1)
             else patch_ready_poll H soc port (l + 1) val1 w1)
      else (l, val, w))"
  by pat_completeness auto
termination
  by (relation "measure (\<lambda>(H, soc, port, l, val, w). 100 - l)") auto

declare patch_ready_poll.simps [simp del]

fun patch_ready ::
  "'h hw_ops \<Rightarrow> rtl83xx_soc_info \<Rightarrow> u32 \<Rightarrow> nat list \<Rightarrow> u32 \<Rightarrow> 'h world \<Rightarrow> bool \<times> u32 \<times> 'h world" where
  "patch_ready H soc mac [] val w = (True, val, w)"
| "patch_ready H soc mac (i # is) val w =
     (case patch_ready_poll H soc (mac + of_nat i) 0 val w of
        (l, val1, w1) \<Rightarrow>
          if l \<ge> 100 then (False, val1, w1)
          else patch_ready H soc mac is val1 w1)"

text \<open>
  What the uninitialised locals hold on entry: \<^verbatim>\<open>val\<close> and \<^verbatim>\<open>ipd\<close> of a configure
  function and \<^verbatim>\<open>val\<close> of the helper it calls.  They are read only where a
  dispatcher found no back end or a back end did not store a value.
\<close>

record stack_junk =
  junk_val :: u32
  junk_ipd :: u32
  junk_helper :: u32

text \<open>
  Lines 905 to 938 of \<^verbatim>\<open>rtl8380_configure_ext_rtl8218b\<close>: broadcast on, the probe
  of \<^verbatim>\<open>ipd\<close>, the per-port list, broadcast off.
\<close>

definition broadcast_id_writes :: "'h hw_ops \<Rightarrow> rtl83xx_soc_info \<Rightarrow> u32 \<Rightarrow> u32 \<Rightarrow> 'h world \<Rightarrow> 'h world" where
  "broadcast_id_writes H soc mac v w =
     (let w = snd (write_phy H soc mac 0xfff 0x1f 0x0000 w);
          w = snd (write_phy H soc mac 0xfff 0x1d 0x0008 w);
          w = snd (write_phy H soc mac 0xfff 0x1f 0x0266 w);
          w = snd (write_phy H soc mac 0xfff 0x16 v w);
          w = snd (write_phy H soc mac 0xfff 0x1f 0x0000 w);
          w = snd (write_phy H soc mac 0xfff 0x1d 0x0000 w)
      in mdelay H 1 w)"

definition ext_rtl8218b_broadcast_patch ::
  "'h hw_ops \<Rightarrow> rtl83xx_soc_info \<Rightarrow> u32 \<Rightarrow> u32 list \<Rightarrow> u32 \<Rightarrow> 'h world \<Rightarrow> (u32 \<times> 'h world) option" where
  "ext_rtl8218b_broadcast_patch H soc mac perport ipd0 w =
     (let w = broadcast_id_writes H soc mac (0xff00 + mac) w;
          w = snd (write_phy H soc mac 0xfff 30 8 w);
          w = snd (write_phy H soc mac 0x26e 17 0xb w);
          w = snd (write_phy H soc mac 0x26e 16 0x2 w);
          w = mdelay H 1 w
      in case read_phy H soc mac 0x26e 19 ipd0 w of
           ((ret, ipd), w) \<Rightarrow>
             (let w = snd (write_phy H soc mac 0 30 0 w);
                  ipd = drop_bit 4 ipd AND 0xf
              in case write_list_pairs H soc mac perport w of
                   None \<Rightarrow> None
                 | Some w \<Rightarrow> Some (0, broadcast_id_writes H soc mac (0x00 + mac) w)))"

text \<open>
  \<^verbatim>\<open>rtl8380_configure_ext_rtl8218b\<close>.  \<open>req\<close> is the outcome of
  \<^verbatim>\<open>request_firmware\<close>; printing is left out.  The result is the return value and
  the world, or \<open>None\<close> when a list ran over the end of the firmware buffer.
\<close>

definition rtl8380_configure_ext_rtl8218b ::
  "'h hw_ops \<Rightarrow> rtl83xx_soc_info \<Rightarrow> fw_layout \<Rightarrow> phy_device \<Rightarrow> u32 \<times> u8 list \<Rightarrow> stack_junk
     \<Rightarrow> 'h world \<Rightarrow> (u32 \<times> 'h world) option" where
  "rtl8380_configure_ext_rtl8218b H soc L phydev req j w =
     (let mac = mdio_addr phydev in
      if family soc = RTL8380_FAMILY_ID \<and> mac \<noteq> 0 \<and> mac \<noteq> 16 then Some (- 1, w)
      else
        case read_phy H soc mac 0 2 (junk_val j) w of ((r1, val), w) \<Rightarrow>
        let phy_id = push_bit 16 val in
        case read_phy H soc mac 0 3 val w of ((r2, val), w) \<Rightarrow>
        let phy_id = phy_id OR val;
            w = snd (write_phy H soc mac 31 27 0x0002 w) in
        case read_phy H soc mac 31 28 val w of ((r3, val), w) \<Rightarrow>
        if val \<noteq> 0x6276 then Some (- 1, w)
        else
          case rtl838x_request_fw L req of (h, data) \<Rightarrow>
          if \<not> h then Some (- 1, w)
          else if be32 data (offsetof_phy L) \<noteq> 0x8218b000 then Some (- 1, w)
          else
            let rtl8380_rtl8218b_perchip = fw_region L data 0;
                rtl8218B_6276B_rtl8380_perport = fw_region L data 1;
                rtl8380_rtl8218b_perport = fw_region L data 2 in
            case read_phy H soc mac 0 0 val w of ((r4, val), w) \<Rightarrow>
            let w = (if val AND push_bit 11 1 \<noteq> 0
                     then rtl8380_int_phy_on_off H soc mac True (junk_helper j) w
                     else rtl8380_phy_reset H soc mac (junk_helper j) w);
                w = msleep H 100 w;
                w = snd (write_phy H soc mac 0xfff 0x1f 0x0 w);
                w = snd (write_phy H soc mac 0xfff 0x1b 0x4 w) in
            case read_phy H soc mac 0xfff 0x1c val w of ((r5, val), w) \<Rightarrow>
            case write_list_triples H soc mac rtl8380_rtl8218b_perchip w of
              None \<Rightarrow> None
            | Some w \<Rightarrow>
                let w = write_two_each H soc mac 0x1f 0x0000 0x00 0x1140 w;
                    w = mdelay H 100 w;
                    w = write_two_each H soc mac 0x1f 0x0b82 0x10 0x0010 w;
                    w = mdelay H 300 w in
                case patch_ready H soc mac [0..<8] val w of
                  (ready, val, w) \<Rightarrow>
                    if \<not> ready then Some (- 1, w)
                    else ext_rtl8218b_broadcast_patch H soc mac
                           rtl8218B_6276B_rtl8380_perport (junk_ipd j) w)"

text \<open>
  The per-port loop at the end of \<^verbatim>\<open>rtl8380_configure_int_rtl8218b\<close>: for each of
  the ports that are left, the one list and then the other.
\<close>

fun int_rtl8218b_patch_ports ::
  "'h hw_ops \<Rightarrow> rtl83xx_soc_info \<Rightarrow> u32 \<Rightarrow> u32 list \<Rightarrow> u32 list \<Rightarrow> nat list \<Rightarrow> 'h world
     \<Rightarrow> 'h world option" where
  "int_rtl8218b_patch_ports H soc mac perport hwesd [] w = Some w"
| "int_rtl8218b_patch_ports H soc mac perport hwesd (p # ps) w =
     (case write_list_pairs H soc (mac + of_nat p) perport w of
        None \<Rightarrow> None
      | Some w1 \<Rightarrow>
          (case write_list_pairs H soc (mac + of_nat p) hwesd w1 of
             None \<Rightarrow> None
           | Some w2 \<Rightarrow> int_rtl8218b_patch_ports H soc mac perport hwesd ps w2))"

text \<open>
  \<^verbatim>\<open>rtl8380_configure_int_rtl8218b\<close>.  \<^verbatim>\<open>ipd_flag\<close> is set and never read; the read
  of \<^verbatim>\<open>RTL838X_DMY_REG31\<close> stays.
\<close>

definition rtl8380_configure_int_rtl8218b ::
  "'h hw_ops \<Rightarrow> rtl83xx_soc_info \<Rightarrow> regmap \<Rightarrow> fw_layout \<Rightarrow> phy_device \<Rightarrow> u32 \<times> u8 list
     \<Rightarrow> stack_junk \<Rightarrow> 'h world \<Rightarrow> (u32 \<times> 'h world) option" where
  "rtl8380_configure_int_rtl8218b H soc m L phydev req j w =
     (let mac = mdio_addr phydev in
      case read_phy H soc mac 0 2 (junk_val j) w of ((r1, val), w) \<Rightarrow>
      let phy_id = push_bit 16 val in
      case read_phy H soc mac 0 3 val w of ((r2, val), w) \<Rightarrow>
      let phy_id = phy_id OR val;
          w = snd (write_phy H soc mac 31 27 0x0002 w) in
      case read_phy H soc mac 31 28 val w of ((r3, val), w) \<Rightarrow>
      if val \<noteq> 0x6275 then Some (- 1, w)
      else
        case rtl838x_request_fw L req of (h, data) \<Rightarrow>
        if \<not> h then Some (- 1, w)
        else if be32 data (offsetof_phy L) \<noteq> 0x83800000 then Some (- 1, w)
        else
          let rtl838x_6275B_intPhy_perport = fw_region L data 8;
              rtl8218b_6276B_hwEsd_perport = fw_region L data 9 in
          case sw_r32 H (RTL838X_DMY_REG31 m) w of (dmy, w) \<Rightarrow>
          case read_phy H soc mac 0 0 val w of ((r4, val), w) \<Rightarrow>
          let w = (if val AND push_bit 11 1 \<noteq> 0
                   then rtl8380_int_phy_on_off H soc mac True (junk_helper j) w
                   else rtl8380_phy_reset H soc mac (junk_helper j) w);
              w = msleep H 100 w;
              w = write_two_each H soc mac 0x1f 0x0b82 0x10 0x0010 w;
              w = msleep H 500 w in
          case patch_ready H soc mac [0..<8] val w of
            (ready, val, w) \<Rightarrow>
              if \<not> ready then Some (- 1, w)
              else
                (case int_rtl8218b_patch_ports H soc mac rtl838x_6275B_intPhy_perport
                        rtl8218b_6276B_hwEsd_perport [0..<8] w of
                   None \<Rightarrow> None
                 | Some w \<Rightarrow> Some (0, w)))"



fun pairs_before_stop :: "u32 list \<Rightarrow> (u32 \<times> u32) list" where
  "pairs_before_stop (r # v # rest) = (if r = 0 then [] else (r, v) # pairs_before_stop rest)"
| "pairs_before_stop _ = []"

text \<open>
  An external RTL8218B behind the back ends: register 28 of page 31 reads as the
  identifier 0x6276, register 0x10 of page 0xb80 as ready for the patch, everything
  else as 0; all calls return 0.
\<close>

definition rtl8218b_ops :: "unit hw_ops" where
  "rtl8218b_ops =
     \<lparr>hw_r32 = (\<lambda>h a. (0, h)),
      hw_w32 = (\<lambda>h a v. h),
      hw_delay = (\<lambda>h n. h),
      hw_read_phy = (\<lambda>h b port page reg val.
        ((0, if page = 31 \<and> reg = 28 then 0x6276
             else if page = 0xb80 \<and> reg = 0x10 then 0x40 else 0), h)),
      hw_write_phy = (\<lambda>h b port page reg val. (0, h)),
      hw_read_mmd_phy = (\<lambda>h b port devnum regnum val. ((0, val), h)),
      hw_write_mmd_phy = (\<lambda>h b port devnum reg val. (0, h))\<rparr>"

definition soc_rtl8380 :: rtl83xx_soc_info where
  "soc_rtl8380 = \<lparr>family = RTL8380_FAMILY_ID, id_soc = 0x8380\<rparr>"

definition no_junk :: stack_junk where
  "no_junk = \<lparr>junk_val = 0, junk_ipd = 0, junk_helper = 0\<rparr>"

definition start0 :: "unit world" where
  "start0 = \<lparr>hw = (), trace = []\<rparr>"

text \<open>
  A firmware image of 112 bytes in that layout, with the checksum field as given:
  magic 0x83808380, target 0x8218b000, version 1, regions 0, 1 and 2 at the offsets 0,
  24 and 48 behind the header.  Region 0 holds the triple (1, 0x1e, 0x8) and three
  zero words, region 1 the pairs (0x1f, 0x0b82), (0x10, 0x0010) and two zero words,
  region 2 two zero words.  Its checksum is 0x731dfde9.
\<close>

definition example_fw :: "u32 \<Rightarrow> u8 list" where
  "example_fw ck =
     [0x83, 0x80, 0x83, 0x80, 0x82, 0x18, 0xb0, 0x00] @
     be_bytes ck @
     [0x00, 0x00, 0x00, 0x01, 0x00, 0x00, 0x04, 0x00, 0x00, 0x18, 0x04, 0x00, 0x00,
      0x30, 0x04, 0x00, 0x00, 0x00, 0x04, 0x00, 0x00, 0x00, 0x04, 0x00, 0x00, 0x00,
      0x04, 0x00, 0x00, 0x00, 0x04, 0x00, 0x00, 0x00, 0x04, 0x00, 0x00, 0x00, 0x04,
      0x00, 0x00, 0x00, 0x04, 0x00, 0x00, 0x00, 0x00, 0x01, 0x00, 0x00, 0x00, 0x1e,
      0x00, 0x00, 0x00, 0x08, 0x00, 0x00, 0x00, 0x00, 0x00, 0x00, 0x00, 0x00, 0x00,
      0x00, 0x00, 0x00, 0x00, 0x00, 0x00, 0x1f, 0x00, 0x00, 0x0b, 0x82, 0x00, 0x00,
      0x00, 0x10, 0x00, 0x00, 0x00, 0x10, 0x00, 0x00, 0x00, 0x00, 0x00, 0x00, 0x00,
      0x00, 0x00, 0x00, 0x00, 0x00, 0x00, 0x00, 0x00, 0x00]"

definition example_checksum :: u32 where
  "example_checksum = 0x731dfde9"

section \<open>Properties of the dispatch layer and of the shadow register\<close>

lemma trace_emit: "trace (emit e h w) = trace w @ [e]"
  by (simp add: emit_def)

lemma hw_emit: "hw (emit e h w) = h"
  by (simp add: emit_def)

lemma sw_r32_trace:
  "sw_r32 H reg w = (v, w1) \<Longrightarrow> trace w1 = trace w @ [R32 reg v]"
  by (auto simp: sw_r32_def trace_emit split: prod.splits)

lemma sw_w32_trace: "trace (sw_w32 H val reg w) = trace w @ [W32 val reg]"
  by (simp add: sw_w32_def trace_emit)

lemma mdelay_trace: "trace (mdelay H n w) = trace w @ [Mdelay n]"
  by (simp add: mdelay_def trace_emit)

lemma call_read_mmd_phy_trace:
  "trace (snd (call_read_mmd_phy H b port devnum regnum val w))
     = trace w @ [MmdRead b port devnum regnum]"
  by (simp add: call_read_mmd_phy_def trace_emit split: prod.splits)

lemma call_write_mmd_phy_trace:
  "trace (snd (call_write_mmd_phy H b port devnum reg val w))
     = trace w @ [MmdWrite b port devnum reg val]"
  by (simp add: call_write_mmd_phy_def trace_emit split: prod.splits)

lemma read_mmd_phy_trace:
  "trace (snd (read_mmd_phy H soc port devnum regnum val w))
     = trace w @ (case backend_for (family soc) of
                    None \<Rightarrow> []
                  | Some b \<Rightarrow> [MmdRead b port devnum regnum])"
  by (cases "family soc") (simp_all add: read_mmd_phy_def call_read_mmd_phy_trace)

text \<open>
  Claim C9.  On the RTL839x, whose SerDes is a wide shadow register, with the chip
  identifier 0x8393 a read of SerDes PHY register 2 returns 0x1c and a read of
  register 3 returns 0x8393, and the world (hardware state and trace) is untouched:
  no register was accessed.  In every other case the function reads the shadow
  register once, at the base plus the lane offset plus 0x80 plus the word offset of
  the PHY register: it returns the half of the word the hardware delivered that holds
  the PHY register, which is at most 0xffff, the hardware is in the state that this
  one read left it in, and the read is the one event added to the trace.
\<close>

theorem rtl839x_read_sds_phy_identity:
  "(id_soc soc = 0x8393 \<longrightarrow>
      rtl839x_read_sds_phy H soc m phy_addr 2 w = (0x1c, w) \<and>
      rtl839x_read_sds_phy H soc m phy_addr 3 w = (0x8393, w)) \<and>
   (\<not> (id_soc soc = 0x8393 \<and> (phy_reg = 2 \<or> phy_reg = 3)) \<longrightarrow>
      (let a = RTL839X_SDS12_13_XSG0 m + (if phy_addr = 49 then 0x100 else 0)
                 + 0x80 + (push_bit 1 phy_reg AND 0xfc);
           v = fst (hw_r32 H (hw w) a);
           h = snd (hw_r32 H (hw w) a)
       in rtl839x_read_sds_phy H soc m phy_addr phy_reg w
            = ((if phy_reg AND 1 \<noteq> 0 then drop_bit 16 v else v) AND 0xffff,
               \<lparr>hw = h, trace = trace w @ [R32 a v]\<rparr>) \<and>
          rtl839x_read_sds_phy H soc m phy_addr phy_reg w
            = (case sw_r32 H a w of
                 (v, w1) \<Rightarrow> ((if phy_reg AND 1 \<noteq> 0 then drop_bit 16 v else v) AND 0xffff, w1)) \<and>
          fst (rtl839x_read_sds_phy H soc m phy_addr phy_reg w) \<le> 0xffff))"
proof (intro conjI impI)
  assume "id_soc soc = 0x8393"
  then show "rtl839x_read_sds_phy H soc m phy_addr 2 w = (0x1c, w)"
    by (simp add: rtl839x_read_sds_phy_def)
next
  assume "id_soc soc = 0x8393"
  then show "rtl839x_read_sds_phy H soc m phy_addr 3 w = (0x8393, w)"
    by (simp add: rtl839x_read_sds_phy_def)
next
  let ?a = "RTL839X_SDS12_13_XSG0 m + (if phy_addr = 49 then 0x100 else 0)
              + 0x80 + (push_bit 1 phy_reg AND 0xfc)"
  let ?v = "fst (hw_r32 H (hw w) ?a)" and ?h = "snd (hw_r32 H (hw w) ?a)"
  assume other: "\<not> (id_soc soc = 0x8393 \<and> (phy_reg = 2 \<or> phy_reg = 3))"
  have rd: "sw_r32 H ?a w = (?v, \<lparr>hw = ?h, trace = trace w @ [R32 ?a ?v]\<rparr>)"
    by (simp add: sw_r32_def emit_def split_beta)
  have code: "rtl839x_read_sds_phy H soc m phy_addr phy_reg w
               = (case sw_r32 H ?a w of
                    (v, w1) \<Rightarrow>
                      ((if phy_reg AND 1 \<noteq> 0 then drop_bit 16 v else v) AND 0xffff, w1))"
    using other by (auto simp: rtl839x_read_sds_phy_def Let_def split: prod.splits)
  have res: "rtl839x_read_sds_phy H soc m phy_addr phy_reg w
               = ((if phy_reg AND 1 \<noteq> 0 then drop_bit 16 ?v else ?v) AND 0xffff,
                  \<lparr>hw = ?h, trace = trace w @ [R32 ?a ?v]\<rparr>)"
    unfolding code rd by simp
  have le: "(if phy_reg AND 1 \<noteq> 0 then drop_bit 16 ?v else ?v) AND 0xffff \<le> (0xffff :: u32)"
    by (rule word_and_le1)
  have "fst (rtl839x_read_sds_phy H soc m phy_addr phy_reg w) \<le> 0xffff"
    unfolding res using le by simp
  with res code
  show "let a = ?a; v = fst (hw_r32 H (hw w) a); h = snd (hw_r32 H (hw w) a)
        in rtl839x_read_sds_phy H soc m phy_addr phy_reg w
             = ((if phy_reg AND 1 \<noteq> 0 then drop_bit 16 v else v) AND 0xffff,
                \<lparr>hw = h, trace = trace w @ [R32 a v]\<rparr>) \<and>
           rtl839x_read_sds_phy H soc m phy_addr phy_reg w
             = (case sw_r32 H a w of
                  (v, w1) \<Rightarrow>
                    ((if phy_reg AND 1 \<noteq> 0 then drop_bit 16 v else v) AND 0xffff, w1)) \<and>
           fst (rtl839x_read_sds_phy H soc m phy_addr phy_reg w) \<le> 0xffff"
    unfolding Let_def by (intro conjI)
qed

theorem rtl839x_read_sds_phy_identity_witness:
  "rtl839x_read_sds_phy ram_ops soc_rtl8393 example_regmap 48 2 ram_word = (0x1c, ram_word) \<and>
   rtl839x_read_sds_phy ram_ops soc_rtl8393 example_regmap 48 3 ram_word
     = (0x8393, ram_word) \<and>
   rtl839x_read_sds_phy ram_ops soc_rtl8393 example_regmap 48 1 ram_word
     = (0x1234, \<lparr>hw = hw ram_word, trace = [R32 0xb880 0x12345678]\<rparr>) \<and>
   rtl839x_read_sds_phy ram_ops soc_rtl8393 example_regmap 49 4 ram_word
     = (0x5678, \<lparr>hw = hw ram_word, trace = [R32 0xb988 0x12345678]\<rparr>) \<and>
   rtl839x_read_sds_phy ram_ops soc_rtl8390 example_regmap 48 2 ram_word
     = (0x5678, \<lparr>hw = hw ram_word, trace = [R32 0xb884 0x12345678]\<rparr>)"
proof -
  have a: "id_soc soc_rtl8393 = 0x8393"
    by (simp add: soc_rtl8393_def)
  have b1: "\<not> (id_soc soc_rtl8393 = 0x8393 \<and> ((1::u32) = 2 \<or> (1::u32) = 3))"
    and b4: "\<not> (id_soc soc_rtl8393 = 0x8393 \<and> ((4::u32) = 2 \<or> (4::u32) = 3))"
    and b2: "\<not> (id_soc soc_rtl8390 = 0x8393 \<and> ((2::u32) = 2 \<or> (2::u32) = 3))"
    by (simp_all add: soc_rtl8390_def)
  have ev: "hw_r32 ram_ops (hw ram_word) x = (0x12345678, hw ram_word)"
    "trace ram_word = []"
    "RTL839X_SDS12_13_XSG0 example_regmap = 0xb800" for x
    by (simp_all add: ram_ops_def ram_word_def example_regmap_def)
  from rtl839x_read_sds_phy_identity [of soc_rtl8393 ram_ops example_regmap 48 ram_word 1] a
  have c23: "rtl839x_read_sds_phy ram_ops soc_rtl8393 example_regmap 48 2 ram_word
               = (0x1c, ram_word)"
    "rtl839x_read_sds_phy ram_ops soc_rtl8393 example_regmap 48 3 ram_word = (0x8393, ram_word)"
    by blast+
  from rtl839x_read_sds_phy_identity [of soc_rtl8393 ram_ops example_regmap 48 ram_word 1] b1
  have c1: "rtl839x_read_sds_phy ram_ops soc_rtl8393 example_regmap 48 1 ram_word
     = (0x1234, \<lparr>hw = hw ram_word, trace = [R32 0xb880 0x12345678]\<rparr>)"
    by (simp add: Let_def ev)
  from rtl839x_read_sds_phy_identity [of soc_rtl8393 ram_ops example_regmap 49 ram_word 4] b4
  have c4: "rtl839x_read_sds_phy ram_ops soc_rtl8393 example_regmap 49 4 ram_word
     = (0x5678, \<lparr>hw = hw ram_word, trace = [R32 0xb988 0x12345678]\<rparr>)"
    by (simp add: Let_def ev)
  from rtl839x_read_sds_phy_identity [of soc_rtl8390 ram_ops example_regmap 48 ram_word 2] b2
  have c2: "rtl839x_read_sds_phy ram_ops soc_rtl8390 example_regmap 48 2 ram_word
     = (0x5678, \<lparr>hw = hw ram_word, trace = [R32 0xb884 0x12345678]\<rparr>)"
    by (simp add: Let_def ev)
  from c23 c1 c4 c2 show ?thesis by simp
qed

text \<open>
  Claim C10.  The extended-register write of the RTL8218B, \<^verbatim>\<open>rtl8218b_write_mmd\<close>,
  is one call of the RTL838x back end \<^verbatim>\<open>rtl838x_write_mmd_phy\<close> whatever the family
  of the SoC is (the function does not look at \<^verbatim>\<open>soc_info\<close>): it returns what that
  back end returns, leaves the hardware as that back end left it, and the call is the
  one event added.  The read, \<^verbatim>\<open>rtl8218b_read_mmd\<close>, is one call of the back end
  that \<^verbatim>\<open>read_mmd_phy\<close> selects for the family: it returns the error code of that
  back end if there is one and the value it stored otherwise; for a family without a
  back end it returns -1 and does nothing.  So on every family other than RTL8380 no
  event of the read went through the RTL838x back end, through which the one event of
  the write went.
\<close>

theorem rtl8218b_mmd_transports:
  "rtl8218b_write_mmd H phydev devnum regnum val w
     = (fst (hw_write_mmd_phy H (hw w) RTL838X (mdio_addr phydev) devnum
               (ucast regnum) (ucast val)),
        \<lparr>hw = snd (hw_write_mmd_phy H (hw w) RTL838X (mdio_addr phydev) devnum
                      (ucast regnum) (ucast val)),
          trace = trace w @
            [MmdWrite RTL838X (mdio_addr phydev) devnum (ucast regnum) (ucast val)]\<rparr>) \<and>
   rtl8218b_read_mmd H soc phydev devnum regnum val0 w
     = (case backend_for (family soc) of
          None \<Rightarrow> (- 1, w)
        | Some b \<Rightarrow>
            (let r = hw_read_mmd_phy H (hw w) b (mdio_addr phydev) devnum (ucast regnum) val0
             in (if fst (fst r) \<noteq> 0 then fst (fst r) else snd (fst r),
                 \<lparr>hw = snd r,
                   trace = trace w @
                     [MmdRead b (mdio_addr phydev) devnum (ucast regnum)]\<rparr>))) \<and>
   events_of w (snd (rtl8218b_write_mmd H phydev devnum regnum val w))
     = [MmdWrite RTL838X (mdio_addr phydev) devnum (ucast regnum) (ucast val)] \<and>
   events_of w (snd (rtl8218b_read_mmd H soc phydev devnum regnum val0 w))
     = (case backend_for (family soc) of
          None \<Rightarrow> []
        | Some b \<Rightarrow> [MmdRead b (mdio_addr phydev) devnum (ucast regnum)]) \<and>
   (family soc \<noteq> RTL8380_FAMILY_ID \<longrightarrow>
      (\<forall>e \<in> set (events_of w (snd (rtl8218b_read_mmd H soc phydev devnum regnum val0 w))).
         backend_of e \<noteq> Some RTL838X) \<and>
      (\<forall>e \<in> set (events_of w (snd (rtl8218b_write_mmd H phydev devnum regnum val w))).
         backend_of e = Some RTL838X))"
proof -
  have wcall: "rtl8218b_write_mmd H phydev devnum regnum val w
     = (fst (hw_write_mmd_phy H (hw w) RTL838X (mdio_addr phydev) devnum
               (ucast regnum) (ucast val)),
        \<lparr>hw = snd (hw_write_mmd_phy H (hw w) RTL838X (mdio_addr phydev) devnum
                      (ucast regnum) (ucast val)),
          trace = trace w @
            [MmdWrite RTL838X (mdio_addr phydev) devnum (ucast regnum) (ucast val)]\<rparr>)"
    by (simp add: rtl8218b_write_mmd_def call_write_mmd_phy_def emit_def Let_def split_beta)
  have rcall: "rtl8218b_read_mmd H soc phydev devnum regnum val0 w
     = (case backend_for (family soc) of
          None \<Rightarrow> (- 1, w)
        | Some b \<Rightarrow>
            (let r = hw_read_mmd_phy H (hw w) b (mdio_addr phydev) devnum (ucast regnum) val0
             in (if fst (fst r) \<noteq> 0 then fst (fst r) else snd (fst r),
                 \<lparr>hw = snd r,
                   trace = trace w @
                     [MmdRead b (mdio_addr phydev) devnum (ucast regnum)]\<rparr>)))"
    by (cases "family soc")
       (simp_all add: rtl8218b_read_mmd_def read_mmd_phy_def call_read_mmd_phy_def emit_def
          Let_def split_beta)
  have wr: "events_of w (snd (rtl8218b_write_mmd H phydev devnum regnum val w))
              = [MmdWrite RTL838X (mdio_addr phydev) devnum (ucast regnum) (ucast val)]"
    by (simp add: events_of_def rtl8218b_write_mmd_def call_write_mmd_phy_trace)
  have "trace (snd (rtl8218b_read_mmd H soc phydev devnum regnum val0 w))
          = trace (snd (read_mmd_phy H soc (mdio_addr phydev) devnum (ucast regnum) val0 w))"
    by (simp add: rtl8218b_read_mmd_def split: prod.splits)
  then have rd: "events_of w (snd (rtl8218b_read_mmd H soc phydev devnum regnum val0 w))
              = (case backend_for (family soc) of
                   None \<Rightarrow> []
                 | Some b \<Rightarrow> [MmdRead b (mdio_addr phydev) devnum (ucast regnum)])"
    by (simp add: events_of_def read_mmd_phy_trace)
  have fam: "family soc \<noteq> RTL8380_FAMILY_ID \<longrightarrow>
      (\<forall>e \<in> set (events_of w (snd (rtl8218b_read_mmd H soc phydev devnum regnum val0 w))).
         backend_of e \<noteq> Some RTL838X) \<and>
      (\<forall>e \<in> set (events_of w (snd (rtl8218b_write_mmd H phydev devnum regnum val w))).
         backend_of e = Some RTL838X)"
    unfolding rd wr by (cases "family soc") simp_all
  from wcall rcall wr rd fam show ?thesis
    by (intro conjI)
qed

theorem rtl8218b_mmd_transports_witness:
  "rtl8218b_write_mmd mmd_ops \<lparr>mdio_addr = 8\<rparr> 7 60 6 mmd0
     = (- 5, \<lparr>hw = 1, trace = [MmdWrite RTL838X 8 7 60 6]\<rparr>) \<and>
   rtl8218b_read_mmd mmd_ops soc_rtl9300 \<lparr>mdio_addr = 8\<rparr> 7 60 0 mmd0
     = (0x1234, \<lparr>hw = 1, trace = [MmdRead RTL930X 8 7 60]\<rparr>) \<and>
   events_of ram0 (snd (rtl8218b_write_mmd ram_ops \<lparr>mdio_addr = 8\<rparr> 7 60 6 ram0))
     = [MmdWrite RTL838X 8 7 60 6] \<and>
   events_of ram0 (snd (rtl8218b_read_mmd ram_ops soc_rtl9300 \<lparr>mdio_addr = 8\<rparr> 7 60 0 ram0))
     = [MmdRead RTL930X 8 7 60] \<and>
   map backend_of (events_of ram0
        (snd (rtl8218b_read_mmd ram_ops soc_rtl9300 \<lparr>mdio_addr = 8\<rparr> 7 60 0 ram0)))
     = [Some RTL930X]"
proof -
  have a: "family soc_rtl9300 \<noteq> RTL8380_FAMILY_ID"
    by (simp add: soc_rtl9300_def)
  from rtl8218b_mmd_transports
         [of mmd_ops "\<lparr>mdio_addr = 8\<rparr>" 7 60 6 mmd0 soc_rtl9300 0]
  have m: "rtl8218b_write_mmd mmd_ops \<lparr>mdio_addr = 8\<rparr> 7 60 6 mmd0
             = (- 5, \<lparr>hw = 1, trace = [MmdWrite RTL838X 8 7 60 6]\<rparr>)"
    "rtl8218b_read_mmd mmd_ops soc_rtl9300 \<lparr>mdio_addr = 8\<rparr> 7 60 0 mmd0
             = (0x1234, \<lparr>hw = 1, trace = [MmdRead RTL930X 8 7 60]\<rparr>)"
    by (simp_all add: mmd_ops_def mmd0_def soc_rtl9300_def EIO_def Let_def)
  note t = rtl8218b_mmd_transports
             [of ram_ops "\<lparr>mdio_addr = 8\<rparr>" 7 60 6 ram0 soc_rtl9300 0]
  from t [THEN conjunct2, THEN conjunct2, THEN conjunct1]
  have r1: "events_of ram0 (snd (rtl8218b_write_mmd ram_ops \<lparr>mdio_addr = 8\<rparr> 7 60 6 ram0))
             = [MmdWrite RTL838X 8 7 60 6]"
    by simp
  from t [THEN conjunct2, THEN conjunct2, THEN conjunct2, THEN conjunct1]
  have r2: "events_of ram0
              (snd (rtl8218b_read_mmd ram_ops soc_rtl9300 \<lparr>mdio_addr = 8\<rparr> 7 60 0 ram0))
             = [MmdRead RTL930X 8 7 60]"
    by (simp add: soc_rtl9300_def)
  from m r1 r2 show ?thesis by simp
qed

section \<open>Properties of the indirect SerDes protocol\<close>

lemma events_of_append: "trace w1 = trace w @ evs \<Longrightarrow> events_of w w1 = evs"
  by (simp add: events_of_def)

text \<open>
  The wait loop: it is left with a counter of at most 100; every round before the
  last found the start bit set and was followed by the delay; with a counter below
  100 the last read found the bit clear, and with the counter 100 there is no such
  read.
\<close>

lemma sds_poll_trace:
  "sds_poll H reg i w = (j, w1) \<Longrightarrow> i \<le> 100 \<Longrightarrow>
     \<exists>vs. i + length vs = j \<and> j \<le> 100 \<and> list_all (\<lambda>v. v AND 1 \<noteq> 0) vs \<and>
          (if j < 100
           then \<exists>v. v AND 1 = 0 \<and> trace w1 = trace w @ busy_polls reg vs @ [R32 reg v]
           else trace w1 = trace w @ busy_polls reg vs)"
proof (induction H reg i w arbitrary: j w1 rule: sds_poll.induct)
  case (1 H reg i w)
  show ?case
  proof (cases "i < 100")
    case False
    with "1.prems" have "j = i" "w1 = w" "i = 100"
      by (simp_all add: sds_poll.simps)
    then show ?thesis by (intro exI [of _ "[]"]) simp
  next
    case True
    obtain v wa where rd: "sw_r32 H reg w = (v, wa)"
      by (cases "sw_r32 H reg w")
    have tra: "trace wa = trace w @ [R32 reg v]"
      using rd by (rule sw_r32_trace)
    show ?thesis
    proof (cases "v AND 1 = 0")
      case idle: True
      with True rd "1.prems" have "j = i" "w1 = wa"
        by (simp_all add: sds_poll.simps)
      with True idle tra show ?thesis
        by (intro exI [of _ "[]"]) auto
    next
      case busy: False
      with True rd "1.prems"
      have rec: "sds_poll H reg (i + 1) (mdelay H 1 wa) = (j, w1)"
        by (simp add: sds_poll.simps)
      from True have "i + 1 \<le> 100" by simp
      from "1.IH" [OF True rd [symmetric] busy rec this]
      obtain vs where vs: "i + 1 + length vs = j" "j \<le> 100"
          "list_all (\<lambda>v. v AND 1 \<noteq> 0) vs"
          "if j < 100
           then \<exists>v. v AND 1 = 0 \<and>
                  trace w1 = trace (mdelay H 1 wa) @ busy_polls reg vs @ [R32 reg v]
           else trace w1 = trace (mdelay H 1 wa) @ busy_polls reg vs"
        by auto
      show ?thesis
        using vs busy tra
        by (intro exI [of _ "v # vs"]) (auto simp: mdelay_trace split: if_splits)
    qed
  qed
qed

text \<open>A read: the command, the wait loop, and the data register only after the loop
  was left before the bound.\<close>

lemma pr_debug_r32_trace:
  "\<exists>d0. trace (pr_debug_r32 H dbg reg w) = trace w @ (if dbg then [R32 reg d0] else [])"
proof (cases dbg)
  case True
  obtain d0 wa where "sw_r32 H reg w = (d0, wa)"
    by (cases "sw_r32 H reg w")
  with True sw_r32_trace [OF this] show ?thesis
    by (auto simp: pr_debug_r32_def)
next
  case False
  then show ?thesis by (simp add: pr_debug_r32_def)
qed

lemma indirect_read_shape:
  assumes run: "sds_poll H cmdreg 0 (sw_w32 H cmd cmdreg w) = (i, w2)"
    and rd: "sw_r32 H datareg (pr_debug_r32 H dbg datareg w2) = (d, w3)"
  shows "\<exists>evs. trace (if i \<ge> 100 then w2 else w3) = trace w @ evs \<and>
           indirect_read_run cmdreg datareg cmd dbg evs
             (if i \<ge> 100 then - EIO else d AND 0xffff)"
proof -
  from sds_poll_trace [OF run]
  obtain vs where vs: "length vs = i" "i \<le> 100" "list_all (\<lambda>v. v AND 1 \<noteq> 0) vs"
      "if i < 100
       then \<exists>v. v AND 1 = 0 \<and>
              trace w2 = trace (sw_w32 H cmd cmdreg w) @ busy_polls cmdreg vs @ [R32 cmdreg v]
       else trace w2 = trace (sw_w32 H cmd cmdreg w) @ busy_polls cmdreg vs"
    by auto
  show ?thesis
  proof (cases "i < 100")
    case False
    with vs have "length vs = 100"
      and "trace w2 = trace w @ W32 cmd cmdreg # busy_polls cmdreg vs"
      by (simp_all add: sw_w32_trace)
    with vs(3) False show ?thesis
      unfolding indirect_read_run_def
      by (intro exI [of _ "W32 cmd cmdreg # busy_polls cmdreg vs"] conjI exI [of _ vs]) simp_all
  next
    case True
    with vs obtain v where v: "v AND 1 = 0"
        "trace w2 = trace w @ W32 cmd cmdreg # busy_polls cmdreg vs @ [R32 cmdreg v]"
      by (auto simp: sw_w32_trace)
    from pr_debug_r32_trace [of H dbg datareg w2] obtain d0
      where d0: "trace (pr_debug_r32 H dbg datareg w2)
                   = trace w2 @ (if dbg then [R32 datareg d0] else [])"
      by blast
    let ?evs = "W32 cmd cmdreg # busy_polls cmdreg vs @ [R32 cmdreg v]
                  @ (if dbg then [R32 datareg d0] else []) @ [R32 datareg d]"
    from sw_r32_trace [OF rd] d0 v(2)
    have "trace w3 = trace w @ ?evs"
      by simp
    moreover have "indirect_read_run cmdreg datareg cmd dbg ?evs (d AND 0xffff)"
      unfolding indirect_read_run_def
      using True vs(1,3) v(1) by (intro exI [of _ vs]) auto
    ultimately show ?thesis
      using True by (intro exI [of _ ?evs]) simp
  qed
qed

lemma rtl930x_read_sds_phy_run:
  "\<exists>evs. trace (snd (rtl930x_read_sds_phy H m dbg phy_addr page phy_reg w)) = trace w @ evs \<and>
     indirect_read_run (RTL930X_SDS_INDACS_CMD m) (RTL930X_SDS_INDACS_DATA m)
       (push_bit 2 phy_addr OR push_bit 7 page OR push_bit 13 phy_reg OR 1) dbg evs
       (fst (rtl930x_read_sds_phy H m dbg phy_addr page phy_reg w))"
proof -
  let ?cmd = "push_bit 2 phy_addr OR push_bit 7 page OR push_bit 13 phy_reg OR 1"
  let ?c = "RTL930X_SDS_INDACS_CMD m" and ?d = "RTL930X_SDS_INDACS_DATA m"
  obtain i w2 where run: "sds_poll H ?c 0 (sw_w32 H ?cmd ?c w) = (i, w2)"
    by (cases "sds_poll H ?c 0 (sw_w32 H ?cmd ?c w)")
  obtain d w3 where rd: "sw_r32 H ?d (pr_debug_r32 H dbg ?d w2) = (d, w3)"
    by (cases "sw_r32 H ?d (pr_debug_r32 H dbg ?d w2)")
  have "rtl930x_read_sds_phy H m dbg phy_addr page phy_reg w
          = (if i \<ge> 100 then - EIO else d AND 0xffff, if i \<ge> 100 then w2 else w3)"
    using run rd by (simp add: rtl930x_read_sds_phy_def Let_def)
  with indirect_read_shape [OF run rd] show ?thesis
    by simp
qed




text \<open>The wait loop writes nothing.\<close>

lemma busy_polls_no_write: "W32 x r \<notin> set (busy_polls reg vs)"
  by (induction vs) simp_all

lemma sds_poll_no_write:
  assumes "sds_poll H reg 0 w = (i, w1)"
  shows "W32 x r \<notin> set (events_of w w1)"
proof -
  from sds_poll_trace [OF assms]
  obtain vs where "trace w1 = trace w @ busy_polls reg vs \<or>
      (\<exists>v. trace w1 = trace w @ busy_polls reg vs @ [R32 reg v])"
    by (auto split: if_splits)
  then show ?thesis
    by (auto simp: events_of_def busy_polls_no_write)
qed

text \<open>
  The write of the RTL930x never writes the command register, whatever the hardware
  does and whatever the arguments are: its only write goes to the data register.
\<close>

lemma rtl930x_write_sds_phy_never_commands:
  assumes "RTL930X_SDS_INDACS_CMD m \<noteq> RTL930X_SDS_INDACS_DATA m"
  shows "W32 c (RTL930X_SDS_INDACS_CMD m)
           \<notin> set (events_of w (snd (rtl930x_write_sds_phy H m phy_addr page phy_reg v w)))"
proof -
  let ?w1 = "sw_w32 H (ucast v) (RTL930X_SDS_INDACS_DATA m) w"
  obtain i w2 where run: "sds_poll H (RTL930X_SDS_INDACS_CMD m) 0 ?w1 = (i, w2)"
    by (cases "sds_poll H (RTL930X_SDS_INDACS_CMD m) 0 ?w1")
  have res: "snd (rtl930x_write_sds_phy H m phy_addr page phy_reg v w) = w2"
    using run by (simp add: rtl930x_write_sds_phy_def Let_def)
  from sds_poll_trace [OF run]
  obtain evs where evs: "trace w2 = trace ?w1 @ evs" "events_of ?w1 w2 = evs"
    by (auto simp: events_of_def split: if_splits)
  with sds_poll_no_write [OF run]
  have "W32 c (RTL930X_SDS_INDACS_CMD m) \<notin> set evs"
    by simp
  moreover have "events_of w w2 = W32 (ucast v) (RTL930X_SDS_INDACS_DATA m) # evs"
    using evs(1) by (simp add: events_of_def sw_w32_trace)
  ultimately show ?thesis
    using assms res by simp
qed

text \<open>
  The write of the RTL931x starts with four events: the address to the command
  register, the data to the data register, the command register read back, and the
  value read with the direction and start bits set to the command register.
\<close>

lemma rtl931x_write_sds_phy_events:
  "\<exists>c evs. events_of w (snd (rtl931x_write_sds_phy H m phy_addr page phy_reg v w))
      = W32 (push_bit 2 phy_addr OR push_bit 7 page OR push_bit 13 phy_reg)
            (RTL931X_SERDES_INDRT_ACCESS_CTRL m)
        # W32 (ucast v) (RTL931X_SERDES_INDRT_DATA_CTRL m)
        # R32 (RTL931X_SERDES_INDRT_ACCESS_CTRL m) c
        # W32 (c OR 3) (RTL931X_SERDES_INDRT_ACCESS_CTRL m)
        # evs"
proof -
  let ?c = "RTL931X_SERDES_INDRT_ACCESS_CTRL m" and ?d = "RTL931X_SERDES_INDRT_DATA_CTRL m"
  let ?cmd = "push_bit 2 phy_addr OR push_bit 7 page OR push_bit 13 phy_reg"
  let ?w2 = "sw_w32 H (ucast v) ?d (sw_w32 H ?cmd ?c w)"
  obtain c w3 where rd: "sw_r32 H ?c ?w2 = (c, w3)"
    by (cases "sw_r32 H ?c ?w2")
  let ?w4 = "sw_w32 H (c OR 3) ?c w3"
  obtain i w5 where run: "sds_poll H ?c 0 ?w4 = (i, w5)"
    by (cases "sds_poll H ?c 0 ?w4")
  have res: "snd (rtl931x_write_sds_phy H m phy_addr page phy_reg v w) = w5"
    using rd run by (simp add: rtl931x_write_sds_phy_def Let_def)
  from sds_poll_trace [OF run]
  obtain evs where "trace w5 = trace ?w4 @ evs"
    by (auto split: if_splits)
  then have "trace w5 = trace w @ W32 ?cmd ?c # W32 (ucast v) ?d # R32 ?c c
                          # W32 (c OR 3) ?c # evs"
    by (simp add: sw_w32_trace sw_r32_trace [OF rd])
  then show ?thesis
    unfolding res by (auto simp: events_of_def)
qed

text \<open>
  Claim C1, at a concrete input.  The SerDes is idle and its registers are 0.  Lane 2,
  page 0, register 1 is written with 0x1234.  \<^verbatim>\<open>rtl930x_write_sds_phy\<close> returns 0,
  but all it did was to write the data register and to read the idle command register
  once: no command was issued, and the SerDes register is still 0.
  \<^verbatim>\<open>rtl931x_write_sds_phy\<close>, on the same hardware behind its own two registers,
  issues the command with the direction and start bits set, and the SerDes register
  holds 0x1234 afterwards.
\<close>

theorem rtl930x_write_sds_phy_no_command:
  "fst (rtl930x_write_sds_phy (sds_ops 0x3b0 0x3b4) example_regmap 2 0 1 0x1234
          (sds_init 0 (\<lambda>a. 0))) = 0 \<and>
   events_of (sds_init 0 (\<lambda>a. 0))
     (snd (rtl930x_write_sds_phy (sds_ops 0x3b0 0x3b4) example_regmap 2 0 1 0x1234
             (sds_init 0 (\<lambda>a. 0))))
     = [W32 0x1234 0x3b4, R32 0x3b0 0] \<and>
   sds_regs (hw (snd (rtl930x_write_sds_phy (sds_ops 0x3b0 0x3b4) example_regmap 2 0 1 0x1234
                        (sds_init 0 (\<lambda>a. 0))))) 0x802 = 0 \<and>
   fst (rtl931x_write_sds_phy (sds_ops 0x5638 0x563c) example_regmap 2 0 1 0x1234
          (sds_init 0 (\<lambda>a. 0))) = 0 \<and>
   events_of (sds_init 0 (\<lambda>a. 0))
     (snd (rtl931x_write_sds_phy (sds_ops 0x5638 0x563c) example_regmap 2 0 1 0x1234
             (sds_init 0 (\<lambda>a. 0))))
     = [W32 0x2008 0x5638, W32 0x1234 0x563c, R32 0x5638 0x2008, W32 0x200b 0x5638,
        R32 0x5638 0x200a] \<and>
   sds_regs (hw (snd (rtl931x_write_sds_phy (sds_ops 0x5638 0x563c) example_regmap 2 0 1 0x1234
                        (sds_init 0 (\<lambda>a. 0))))) 0x802 = 0x1234"
  by code_simp

text \<open>
  The writes of \<^verbatim>\<open>rtl9300_sds_field_w\<close>, whatever the hardware does: the only
  value that it ever writes to the command register is the read command of its
  read-modify-write, which has the direction bit clear.  It never issues a write
  command.
\<close>

lemma read_command_direction:
  "(push_bit 2 a OR push_bit 7 p OR push_bit 13 r OR 1 :: u32) AND 2 = 0"
proof (rule bit_word_eqI)
  fix n :: nat
  assume n: "n < LENGTH(32)"
  have "bit (2 :: u32) n \<longleftrightarrow> n = 1"
    using n by (auto simp: bit_numeral_Bit0_iff bit_1_iff bit_0 split: nat.splits)
  then show "bit ((push_bit 2 a OR push_bit 7 p OR push_bit 13 r OR 1) AND (2 :: u32)) n
               = bit (0 :: u32) n"
    by (auto simp: bit_simps)
qed

lemma indirect_read_run_writes:
  assumes "indirect_read_run cmdreg datareg cmd dbg evs ret" and "W32 x r \<in> set evs"
  shows "x = cmd \<and> r = cmdreg"
  using assms
  by (auto simp: indirect_read_run_def busy_polls_no_write split: if_splits)

lemma rtl930x_write_sds_phy_trace:
  "\<exists>evs. trace (snd (rtl930x_write_sds_phy H m phy_addr page phy_reg v w))
            = trace w @ W32 (ucast v) (RTL930X_SDS_INDACS_DATA m) # evs \<and>
          (\<forall>x r. W32 x r \<notin> set evs)"
proof -
  let ?w1 = "sw_w32 H (ucast v) (RTL930X_SDS_INDACS_DATA m) w"
  obtain i w2 where run: "sds_poll H (RTL930X_SDS_INDACS_CMD m) 0 ?w1 = (i, w2)"
    by (cases "sds_poll H (RTL930X_SDS_INDACS_CMD m) 0 ?w1")
  have res: "snd (rtl930x_write_sds_phy H m phy_addr page phy_reg v w) = w2"
    using run by (simp add: rtl930x_write_sds_phy_def Let_def)
  from sds_poll_trace [OF run]
  obtain evs where evs: "trace w2 = trace ?w1 @ evs"
    by (auto split: if_splits)
  then have "events_of ?w1 w2 = evs"
    by (rule events_of_append)
  with sds_poll_no_write [OF run] have "\<forall>x r. W32 x r \<notin> set evs"
    by simp
  with evs res show ?thesis
    by (simp add: sw_w32_trace)
qed

lemma rtl9300_sds_field_w_writes:
  assumes "W32 x r \<in> set (events_of w
             (rtl9300_sds_field_w H m dbg sds page reg end_bit start_bit v w))"
  shows "r = RTL930X_SDS_INDACS_DATA m \<or>
         r = RTL930X_SDS_INDACS_CMD m \<and>
           x = push_bit 2 sds OR push_bit 7 page OR push_bit 13 reg OR 1"
proof (cases "end_bit - start_bit - 1 <s 32")
  case False
  from rtl930x_write_sds_phy_trace [of H m sds page reg "ucast v" w]
  obtain evs where "trace (snd (rtl930x_write_sds_phy H m sds page reg (ucast v) w))
            = trace w @ W32 (ucast (ucast v :: u16)) (RTL930X_SDS_INDACS_DATA m) # evs"
      and "\<forall>x r. W32 x r \<notin> set evs"
    by blast
  with events_of_append [OF this(1)] False assms show ?thesis
    by (auto simp: rtl9300_sds_field_w_def Let_def)
next
  case True
  let ?rd = "rtl930x_read_sds_phy H m dbg sds page reg w"
  let ?data = "(fst ?rd AND NOT (shl32 (BIT (end_bit - start_bit - 1) - 1) start_bit))
                 OR shl32 (v AND (BIT (end_bit - start_bit - 1) - 1)) start_bit"
  from rtl930x_read_sds_phy_run [of H m dbg sds page reg w]
  obtain e1 where e1: "trace (snd ?rd) = trace w @ e1"
      "indirect_read_run (RTL930X_SDS_INDACS_CMD m) (RTL930X_SDS_INDACS_DATA m)
         (push_bit 2 sds OR push_bit 7 page OR push_bit 13 reg OR 1) dbg e1 (fst ?rd)"
    by blast
  from rtl930x_write_sds_phy_trace [of H m sds page reg "ucast ?data" "snd ?rd"]
  obtain e2 where e2:
      "trace (snd (rtl930x_write_sds_phy H m sds page reg (ucast ?data) (snd ?rd)))
         = trace (snd ?rd) @ W32 (ucast (ucast ?data :: u16)) (RTL930X_SDS_INDACS_DATA m) # e2"
      "\<forall>x r. W32 x r \<notin> set e2"
    by blast
  have "rtl9300_sds_field_w H m dbg sds page reg end_bit start_bit v w
          = snd (rtl930x_write_sds_phy H m sds page reg (ucast ?data) (snd ?rd))"
    using True by (simp add: rtl9300_sds_field_w_def Let_def split_beta)
  with e1(1) e2(1)
  have "events_of w (rtl9300_sds_field_w H m dbg sds page reg end_bit start_bit v w)
          = e1 @ W32 (ucast (ucast ?data :: u16)) (RTL930X_SDS_INDACS_DATA m) # e2"
    by (simp add: events_of_def)
  with assms e2(2) indirect_read_run_writes [OF e1(2), of x r] show ?thesis
    by auto
qed

text \<open>
  Claim C4, at a concrete input.  The SerDes is idle and its registers are 0.  The
  field with end bit 4 and start bit 0 of lane 2, page 0, register 1 is written with
  0xf and read back.  \<^verbatim>\<open>rtl9300_sds_field_w\<close> computes the length 3 and the mask 7,
  puts 7 into the data register and issues no write command, so the SerDes register
  is still 0; \<^verbatim>\<open>rtl9300_sds_field_r\<close> returns 0, not 0xf.
\<close>

theorem rtl9300_sds_field_w_r_lost:
  "fst (rtl9300_sds_field_r (sds_ops 0x3b0 0x3b4) example_regmap False 2 0 1 4 0
          (rtl9300_sds_field_w (sds_ops 0x3b0 0x3b4) example_regmap False 2 0 1 4 0 0xf
             (sds_init 0 (\<lambda>a. 0)))) = 0 \<and>
   events_of (sds_init 0 (\<lambda>a. 0))
     (rtl9300_sds_field_w (sds_ops 0x3b0 0x3b4) example_regmap False 2 0 1 4 0 0xf
        (sds_init 0 (\<lambda>a. 0)))
     = [W32 0x2009 0x3b0, R32 0x3b0 0x2008, R32 0x3b4 0, W32 7 0x3b4, R32 0x3b0 0x2008] \<and>
   sds_regs (hw (rtl9300_sds_field_w (sds_ops 0x3b0 0x3b4) example_regmap False 2 0 1 4 0 0xf
                   (sds_init 0 (\<lambda>a. 0)))) 0x802 = 0"
  by code_simp

section \<open>Properties of the polling lock\<close>

lemma u64_high_half:
  "ucast (drop_bit 32 (push_bit 32 (ucast (hi :: u32)) OR (ucast (lo :: u32) :: u64))) = hi"
  by (rule bit_word_eqI) (auto simp: bit_simps dest: bit_imp_le_length)

lemma u64_high_half_split:
  "ucast (drop_bit 32 (push_bit 32 (ucast (hi :: u32)) :: u64)
            OR drop_bit 32 (ucast (lo :: u32) :: u64)) = hi"
  by (rule bit_word_eqI) (auto simp: bit_simps dest: bit_imp_le_length)

lemma u64_low_half:
  "ucast (push_bit 32 (ucast (hi :: u32)) OR (ucast (lo :: u32) :: u64)) = lo"
  by (rule bit_word_eqI) (auto simp: bit_simps)

lemma u64_of_u32: "ucast (ucast (v :: u32) :: u64) = v"
  by (rule bit_word_eqI) (auto simp: bit_simps)

text \<open>On a register file, the primitives in terms of the registers.\<close>

lemma ram_sw_r32: "sw_r32 ram_ops reg w = (hw w reg, emit (R32 reg (hw w reg)) (hw w) w)"
  by (simp add: sw_r32_def ram_ops_def)

lemma ram_sw_w32: "hw (sw_w32 ram_ops val reg w) = (hw w)(reg := val)"
  by (simp add: sw_w32_def ram_ops_def hw_emit)

lemma ram_sw_w32_mask:
  "hw (sw_w32_mask ram_ops clear setb reg w)
     = (hw w)(reg := (hw w reg AND NOT clear) OR setb)"
  by (simp add: sw_w32_mask_def ram_sw_r32 ram_sw_w32 hw_emit)

lemma hw_mutex_lock: "hw (mutex_lock w) = hw w"
  by (simp add: mutex_lock_def hw_emit)

lemma hw_mutex_unlock: "hw (mutex_unlock w) = hw w"
  by (simp add: mutex_unlock_def hw_emit)

text \<open>
  Whatever the hardware does: \<^verbatim>\<open>resume_polling\<close> writes to each polling register
  the value that \<^verbatim>\<open>disable_polling\<close> read from it first, and writes nothing else.
\<close>

lemma resume_writes_what_disable_read:
  assumes "disable_polling H soc m port saved0 w = (saved, w1)"
  shows "(family soc = RTL8380_FAMILY_ID \<longrightarrow>
            (\<exists>v rest. events_of w w1 = MutexLock # R32 (RTL838X_SMI_POLL_CTRL m) v # rest \<and>
               events_of w1 (snd (resume_polling H soc m saved w1))
                 = [MutexLock, W32 v (RTL838X_SMI_POLL_CTRL m), MutexUnlock])) \<and>
         (family soc = RTL8390_FAMILY_ID \<longrightarrow>
            (\<exists>hi lo rest.
               events_of w w1 = MutexLock # R32 (RTL839X_SMI_PORT_POLLING_CTRL m + 4) hi
                                  # R32 (RTL839X_SMI_PORT_POLLING_CTRL m) lo # rest \<and>
               events_of w1 (snd (resume_polling H soc m saved w1))
                 = [MutexLock, W32 hi (RTL839X_SMI_PORT_POLLING_CTRL m + 4),
                    W32 lo (RTL839X_SMI_PORT_POLLING_CTRL m), MutexUnlock])) \<and>
         (family soc = RTL9300_FAMILY_ID \<longrightarrow>
            (\<exists>v rest. events_of w w1 = MutexLock # R32 (RTL930X_SMI_POLL_CTRL m) v # rest \<and>
               events_of w1 (snd (resume_polling H soc m saved w1))
                 = [MutexLock, W32 v (RTL930X_SMI_POLL_CTRL m), MutexUnlock])) \<and>
         (family soc = RTL9310_FAMILY_ID \<longrightarrow>
            events_of w w1 = [MutexLock, MutexUnlock] \<and>
            events_of w1 (snd (resume_polling H soc m saved w1)) = [MutexLock, MutexUnlock])"
  using assms
  by (cases "family soc")
     (auto simp: disable_polling_def resume_polling_def Let_def events_of_def
        sw_r32_def sw_w32_def sw_w32_mask_def mutex_lock_def mutex_unlock_def emit_def
        u64_of_u32 u64_high_half u64_high_half_split u64_low_half
        split: prod.splits)

text \<open>
  Claim C5.  The polling registers are registers of a register file: they keep what
  is written to them.  For every family, every port, every content of the registers
  and of the uninitialised \<^verbatim>\<open>saved_state\<close>: after \<^verbatim>\<open>disable_polling(port)\<close> and
  \<^verbatim>\<open>resume_polling\<close> with the value it returned, every polling register of the
  family holds what it held before; on the RTL8390 these are both halves of the
  64-bit mask.  On the RTL9310, where both functions only warn, no register has
  changed.
\<close>

theorem disable_resume_polling_restores:
  "map (hw (snd (resume_polling ram_ops soc m
                   (fst (disable_polling ram_ops soc m port saved0 w))
                   (snd (disable_polling ram_ops soc m port saved0 w)))))
       (polling_regs (family soc) m)
     = map (hw w) (polling_regs (family soc) m) \<and>
   (family soc = RTL9310_FAMILY_ID \<longrightarrow>
      hw (snd (resume_polling ram_ops soc m
                 (fst (disable_polling ram_ops soc m port saved0 w))
                 (snd (disable_polling ram_ops soc m port saved0 w))))
        = hw w)"
proof (cases "family soc")
  case RTL8380_FAMILY_ID
  then show ?thesis
    by (simp add: disable_polling_def resume_polling_def polling_regs_def Let_def
        ram_sw_r32 ram_sw_w32 ram_sw_w32_mask hw_mutex_lock hw_mutex_unlock hw_emit
        u64_of_u32)
next
  case RTL8390_FAMILY_ID
  then show ?thesis
    by (simp add: disable_polling_def resume_polling_def polling_regs_def Let_def
        ram_sw_r32 ram_sw_w32 ram_sw_w32_mask hw_mutex_lock hw_mutex_unlock hw_emit
        u64_high_half u64_high_half_split u64_low_half)
next
  case RTL9300_FAMILY_ID
  then show ?thesis
    by (simp add: disable_polling_def resume_polling_def polling_regs_def Let_def
        ram_sw_r32 ram_sw_w32 ram_sw_w32_mask hw_mutex_lock hw_mutex_unlock hw_emit
        u64_of_u32)
next
  case RTL9310_FAMILY_ID
  then show ?thesis
    by (simp add: disable_polling_def resume_polling_def polling_regs_def Let_def
        hw_mutex_lock hw_mutex_unlock)
next
  case OTHER_FAMILY_ID
  then show ?thesis
    by (simp add: disable_polling_def resume_polling_def polling_regs_def Let_def
        hw_mutex_lock hw_mutex_unlock)
qed

theorem disable_resume_polling_restores_witness:
  "hw (snd (resume_polling ram_ops soc_rtl9310 example_regmap
              (fst (disable_polling ram_ops soc_rtl9310 example_regmap 37 0 ram_ones))
              (snd (disable_polling ram_ops soc_rtl9310 example_regmap 37 0 ram_ones))))
     = hw ram_ones \<and>
   fst (disable_polling ram_ops soc_rtl8390 example_regmap 37 0 ram_ones)
     = 0xffffffffffffffff \<and>
   map (hw (snd (disable_polling ram_ops soc_rtl8390 example_regmap 37 0 ram_ones)))
       [0x03fc, 0x0400]
     = [0xffffffff, 0xffffffdf] \<and>
   map (hw (snd (resume_polling ram_ops soc_rtl8390 example_regmap
                   (fst (disable_polling ram_ops soc_rtl8390 example_regmap 37 0 ram_ones))
                   (snd (disable_polling ram_ops soc_rtl8390 example_regmap 37 0 ram_ones)))))
       [0x03fc, 0x0400]
     = [0xffffffff, 0xffffffff]"
proof -
  have a: "family soc_rtl9310 = RTL9310_FAMILY_ID"
    by (simp add: soc_rtl9310_def)
  have b: "fst (disable_polling ram_ops soc_rtl8390 example_regmap 37 0 ram_ones)
             = 0xffffffffffffffff"
    by code_simp
  have c: "map (hw (snd (disable_polling ram_ops soc_rtl8390 example_regmap 37 0 ram_ones)))
             [0x03fc, 0x0400]
           = [0xffffffff, 0xffffffdf]"
    by code_simp
  have d: "polling_regs (family soc_rtl8390) example_regmap = [0x03fc, 0x0400]"
    "map (hw ram_ones) [0x03fc, 0x0400] = [0xffffffff, 0xffffffff]"
    by (simp_all add: polling_regs_def soc_rtl8390_def example_regmap_def ram_ones_def)
  from disable_resume_polling_restores [of soc_rtl9310 example_regmap 37 0 ram_ones] a
  have e: "hw (snd (resume_polling ram_ops soc_rtl9310 example_regmap
              (fst (disable_polling ram_ops soc_rtl9310 example_regmap 37 0 ram_ones))
              (snd (disable_polling ram_ops soc_rtl9310 example_regmap 37 0 ram_ones))))
     = hw ram_ones"
    by blast
  from disable_resume_polling_restores [of soc_rtl8390 example_regmap 37 0 ram_ones]
  have "map (hw (snd (resume_polling ram_ops soc_rtl8390 example_regmap
                   (fst (disable_polling ram_ops soc_rtl8390 example_regmap 37 0 ram_ones))
                   (snd (disable_polling ram_ops soc_rtl8390 example_regmap 37 0 ram_ones)))))
       [0x03fc, 0x0400]
     = [0xffffffff, 0xffffffff]"
    unfolding d by (rule conjunct1)
  with b c e show ?thesis by blast
qed

section \<open>Properties of the firmware image\<close>

text \<open>Reading and writing a 32-bit field of the buffer.\<close>

lemma be32_be_bytes: "be32 (be_bytes v @ rest) 0 = v"
proof -
  have "push_bit 8 (push_bit 8 (push_bit 8 (ucast (ucast (drop_bit 24 v) :: u8) :: u32)
            OR (ucast (ucast (drop_bit 16 v) :: u8) :: u32))
            OR (ucast (ucast (drop_bit 8 v) :: u8) :: u32))
          OR (ucast (ucast v :: u8) :: u32) = v"
  proof (rule bit_word_eqI)
    fix n :: nat
    assume "n < LENGTH(32)"
    then consider "n < 8" | "8 \<le> n \<and> n < 16" | "16 \<le> n \<and> n < 24" | "24 \<le> n \<and> n < 32"
      by fastforce
    then show "bit (push_bit 8 (push_bit 8 (push_bit 8
                 (ucast (ucast (drop_bit 24 v) :: u8) :: u32)
            OR (ucast (ucast (drop_bit 16 v) :: u8) :: u32))
            OR (ucast (ucast (drop_bit 8 v) :: u8) :: u32))
          OR (ucast (ucast v :: u8) :: u32)) n = bit v n"
      by cases (auto simp: bit_simps)
  qed
  then show ?thesis
    by (simp add: be32_def be_bytes_def)
qed

lemma be32_drop: "be32 bs off = be32 (drop off bs) 0"
  by (simp add: be32_def)

lemma be32_set_be32: "off \<le> length bs \<Longrightarrow> be32 (set_be32 bs off v) off = v"
proof -
  assume "off \<le> length bs"
  then have "drop off (set_be32 bs off v) = be_bytes v @ drop (off + 4) bs"
    by (simp add: set_be32_def)
  then show ?thesis
    using be32_be_bytes [of v "drop (off + 4) bs"] be32_drop [of "set_be32 bs off v" off]
    by simp
qed

lemma be_bytes_be32: "be_bytes (be32 [a, b, c, d] 0) = [a, b, c, d]"
  unfolding be32_def be_bytes_def
  apply simp
  apply (intro conjI; rule bit_word_eqI)
  apply (auto simp: bit_simps dest: bit_imp_le_length)
  done

lemma take_four: "4 \<le> length xs \<Longrightarrow> \<exists>a b c d. take 4 xs = [a, b, c, d]"
  by (cases xs; simp; rename_tac ys; case_tac ys; simp; rename_tac zs; case_tac zs; simp;
      rename_tac us; case_tac us; simp)

lemma set_be32_restore:
  assumes "off + 4 \<le> length bs"
  shows "set_be32 (set_be32 bs off x) off (be32 bs off) = bs"
proof -
  from assms have "4 \<le> length (drop off bs)" by simp
  from take_four [OF this] obtain a b c d where t: "take 4 (drop off bs) = [a, b, c, d]"
    by blast
  have "be32 bs off = be32 [a, b, c, d] 0"
    using t by (simp add: be32_def)
  then have bb: "be_bytes (be32 bs off) = take 4 (drop off bs)"
    using be_bytes_be32 t by simp
  have "set_be32 (set_be32 bs off x) off (be32 bs off)
          = take off bs @ be_bytes (be32 bs off) @ drop (off + 4) bs"
    using assms by (simp add: set_be32_def be_bytes_def)
  also have "\<dots> = take off bs @ take 4 (drop off bs) @ drop 4 (drop off bs)"
    by (simp add: bb add.commute)
  also have "\<dots> = bs"
    by (simp only: append_take_drop_id)
  finally show ?thesis .
qed

lemma set_be32_zero_update:
  assumes "off + 4 \<le> length bs"
  shows "set_be32 bs off 0 = bs[off := 0, off + 1 := 0, off + 2 := 0, off + 3 := 0]"
proof (rule nth_equalityI)
  show "length (set_be32 bs off 0)
          = length (bs[off := 0, off + 1 := 0, off + 2 := 0, off + 3 := 0])"
    using assms by (simp add: set_be32_def be_bytes_def)
next
  fix i assume "i < length (set_be32 bs off 0)"
  then have i: "i < length bs"
    using assms by (simp add: set_be32_def be_bytes_def)
  consider "i < off" | "i = off" | "i = off + 1" | "i = off + 2" | "i = off + 3" | "off + 4 \<le> i"
    by linarith
  then show "set_be32 bs off 0 ! i
          = bs[off := 0, off + 1 := 0, off + 2 := 0, off + 3 := 0] ! i"
    using assms i
    by cases (auto simp: set_be32_def be_bytes_def nth_append)
qed

text \<open>
  The checksum function against the check value of CRC-32: the complement of
  \<^verbatim>\<open>crc32(0xFFFFFFFF, "123456789", 9)\<close> is 0xcbf43926.
\<close>

lemma crc32_bit_numeral:
  "crc32_bit (numeral n)
     = drop_bit 1 (numeral n) XOR (if numeral n AND 1 \<noteq> (0 :: u32) then 0xedb88320 else 0)"
  "crc32_bit 0 = 0"
  "crc32_bit 1 = 0xedb88320"
  by (simp_all add: crc32_bit_def)

lemma crc32_check_value:
  "NOT (crc32 0xFFFFFFFF [0x31, 0x32, 0x33, 0x34, 0x35, 0x36, 0x37, 0x38, 0x39]) = 0xcbf43926"
  by (simp add: crc32_def crc32_byte_def crc32_bit_numeral)

text \<open>The example image.\<close>

lemma layout_ok_example: "layout_ok example_layout"
  by (simp add: layout_ok_def example_layout_def)

lemma example_fw_crc: "NOT (crc32 0xFFFFFFFF (example_fw 0)) = example_checksum"
  by (simp add: example_fw_def be_bytes_def example_checksum_def
      crc32_def crc32_byte_def crc32_bit_numeral)

lemma example_fw_length: "length (example_fw ck) = 112"
  by (simp add: example_fw_def be_bytes_def)

lemma example_fw_magic: "be32 (example_fw ck) 0 = 0x83808380"
  by (simp add: example_fw_def be32_def)

lemma example_fw_phy: "be32 (example_fw ck) 4 = 0x8218b000"
  by (simp add: example_fw_def be32_def)

lemma example_fw_checksum: "be32 (example_fw ck) 8 = ck"
  using be32_be_bytes [of ck]
  by (simp add: example_fw_def be32_drop [of _ 8])

lemma example_fw_set_checksum: "set_be32 (example_fw ck) 8 x = example_fw x"
  by (simp add: example_fw_def set_be32_def be_bytes_def)

lemma example_fw_valid:
  "rtl838x_request_fw example_layout (0, example_fw example_checksum)
     = (True, example_fw example_checksum)"
  by (simp add: rtl838x_request_fw_def example_layout_def Let_def example_fw_length
      example_fw_magic example_fw_checksum example_fw_set_checksum example_fw_crc)

text \<open>
  Claim C3.  The loader has delivered the bytes \<open>data\<close>.  If they are fewer than a
  header, \<^verbatim>\<open>rtl838x_request_fw\<close> returns \<^verbatim>\<open>NULL\<close>.  Otherwise it returns the
  header if and only if the magic field is 0x83808380 and the complement of the CRC-32
  of the whole image, with the four bytes of the checksum field set to 0, equals the
  checksum field as stored; when the magic or the checksum disagrees it returns
  \<^verbatim>\<open>NULL\<close>.
\<close>

theorem rtl838x_request_fw_valid_iff:
  assumes "layout_ok L" and "\<not> err <s 0"
  shows "(length data < sizeof_fw_header L \<longrightarrow> \<not> fst (rtl838x_request_fw L (err, data))) \<and>
    (sizeof_fw_header L \<le> length data \<longrightarrow>
       fst (rtl838x_request_fw L (err, data))
         = (be32 data (offsetof_magic L) = 0x83808380 \<and>
            NOT (crc32 0xFFFFFFFF
                   (data[offsetof_checksum L := 0, offsetof_checksum L + 1 := 0,
                         offsetof_checksum L + 2 := 0, offsetof_checksum L + 3 := 0]))
              = be32 data (offsetof_checksum L)))"
proof (intro conjI impI)
  assume "length data < sizeof_fw_header L"
  then show "\<not> fst (rtl838x_request_fw L (err, data))"
    using assms(2) by (simp add: rtl838x_request_fw_def)
next
  assume len: "sizeof_fw_header L \<le> length data"
  with assms(1) have "offsetof_checksum L + 4 \<le> length data"
    by (simp add: layout_ok_def)
  from set_be32_zero_update [OF this] len assms(2)
  show "fst (rtl838x_request_fw L (err, data))
         = (be32 data (offsetof_magic L) = 0x83808380 \<and>
            NOT (crc32 0xFFFFFFFF
                   (data[offsetof_checksum L := 0, offsetof_checksum L + 1 := 0,
                         offsetof_checksum L + 2 := 0, offsetof_checksum L + 3 := 0]))
              = be32 data (offsetof_checksum L))"
    by (auto simp: rtl838x_request_fw_def Let_def)
qed

theorem rtl838x_request_fw_valid_iff_witness:
  "\<not> fst (rtl838x_request_fw example_layout (0, [0x83, 0x80, 0x83, 0x80])) \<and>
   fst (rtl838x_request_fw example_layout (0, example_fw example_checksum))"
proof -
  have ne: "\<not> (0 :: u32) <s 0"
    by simp
  have short: "length [0x83, 0x80, 0x83, 0x80 :: u8] < sizeof_fw_header example_layout"
    by (simp add: example_layout_def)
  have long: "sizeof_fw_header example_layout \<le> length (example_fw example_checksum)"
    by (simp add: example_layout_def example_fw_length)
  have off: "offsetof_checksum example_layout = 8" "offsetof_magic example_layout = 0"
    by (simp_all add: example_layout_def)
  have "8 + 4 \<le> length (example_fw example_checksum)"
    by (simp add: example_fw_length)
  from set_be32_zero_update [OF this]
  have zeroed: "(example_fw example_checksum)[8 := 0, 8 + 1 := 0, 8 + 2 := 0, 8 + 3 := 0]
                  = example_fw 0"
    by (simp add: example_fw_set_checksum)
  have rhs: "be32 (example_fw example_checksum) (offsetof_magic example_layout) = 0x83808380 \<and>
      NOT (crc32 0xFFFFFFFF
             ((example_fw example_checksum)
                [offsetof_checksum example_layout := 0,
                 offsetof_checksum example_layout + 1 := 0,
                 offsetof_checksum example_layout + 2 := 0,
                 offsetof_checksum example_layout + 3 := 0]))
        = be32 (example_fw example_checksum) (offsetof_checksum example_layout)"
    unfolding off zeroed by (simp add: example_fw_magic example_fw_checksum example_fw_crc)
  from rtl838x_request_fw_valid_iff [OF layout_ok_example ne, of "[0x83, 0x80, 0x83, 0x80]"]
    short
  have a: "\<not> fst (rtl838x_request_fw example_layout (0, [0x83, 0x80, 0x83, 0x80]))"
    by blast
  from rtl838x_request_fw_valid_iff [OF layout_ok_example ne, of "example_fw example_checksum"]
    long rhs
  have b: "fst (rtl838x_request_fw example_layout (0, example_fw example_checksum))"
    by blast
  from a b show ?thesis ..
qed

text \<open>
  What \<^verbatim>\<open>rtl838x_request_fw\<close> leaves in the buffer.  When it returns the header,
  the buffer is what it was: the checksum field has been restored.  When it returns
  \<^verbatim>\<open>NULL\<close> before the checksum is computed, the buffer was never written.  When the
  checksum does not match, the four bytes of the checksum field are left 0.
\<close>

lemma rtl838x_request_fw_success_restores:
  assumes "layout_ok L" and "fst (rtl838x_request_fw L (err, data))"
  shows "snd (rtl838x_request_fw L (err, data)) = data"
proof -
  from assms(2) have len: "sizeof_fw_header L \<le> length data"
    by (auto simp: rtl838x_request_fw_def Let_def split: if_splits)
  with assms(1) have "offsetof_checksum L + 4 \<le> length data"
    by (simp add: layout_ok_def)
  from set_be32_restore [OF this, of 0] assms(2) show ?thesis
    by (auto simp: rtl838x_request_fw_def Let_def split: if_splits)
qed

lemma rtl838x_request_fw_early_failure_unchanged:
  assumes "err <s 0 \<or> length data < sizeof_fw_header L
             \<or> be32 data (offsetof_magic L) \<noteq> 0x83808380"
  shows "rtl838x_request_fw L (err, data) = (False, data)"
  using assms by (auto simp: rtl838x_request_fw_def)

lemma rtl838x_request_fw_mismatch_zeroed:
  assumes "layout_ok L" and "\<not> err <s 0" and "sizeof_fw_header L \<le> length data"
    and "be32 data (offsetof_magic L) = 0x83808380"
    and "NOT (crc32 0xFFFFFFFF (set_be32 data (offsetof_checksum L) 0))
           \<noteq> be32 data (offsetof_checksum L)"
  shows "rtl838x_request_fw L (err, data)
           = (False, data[offsetof_checksum L := 0, offsetof_checksum L + 1 := 0,
                          offsetof_checksum L + 2 := 0, offsetof_checksum L + 3 := 0])"
proof -
  from assms(1,3) have "offsetof_checksum L + 4 \<le> length data"
    by (simp add: layout_ok_def)
  from set_be32_zero_update [OF this] assms(2-5) show ?thesis
    by (auto simp: rtl838x_request_fw_def Let_def)
qed

text \<open>
  Claim C6, at a concrete input.  The example image with the checksum field
  0x12345678 has the right magic and the wrong checksum.  \<^verbatim>\<open>rtl838x_request_fw\<close>
  returns \<^verbatim>\<open>NULL\<close>, and the buffer it leaves is the image with the checksum field
  0: the header is not what it was before the call.
\<close>

theorem rtl838x_request_fw_checksum_left_zero:
  "rtl838x_request_fw example_layout (0, example_fw 0x12345678) = (False, example_fw 0) \<and>
   be32 (example_fw 0x12345678) (offsetof_checksum example_layout) = 0x12345678 \<and>
   be32 (example_fw 0) (offsetof_checksum example_layout) = 0 \<and>
   take (sizeof_fw_header example_layout) (example_fw 0)
     \<noteq> take (sizeof_fw_header example_layout) (example_fw 0x12345678)"
proof -
  have a: "rtl838x_request_fw example_layout (0, example_fw 0x12345678)
             = (False, example_fw 0)"
    using example_fw_crc
    by (simp add: rtl838x_request_fw_def example_layout_def Let_def example_fw_length
        example_fw_magic example_fw_checksum example_fw_set_checksum example_checksum_def)
  have b: "take (sizeof_fw_header example_layout) (example_fw 0)
             \<noteq> take (sizeof_fw_header example_layout) (example_fw 0x12345678)"
    by (simp add: example_layout_def example_fw_def be_bytes_def)
  have c: "offsetof_checksum example_layout = 8"
    by (simp add: example_layout_def)
  from a b show ?thesis
    by (simp add: c example_fw_checksum)
qed

section \<open>Properties of the patch sequencer\<close>

text \<open>With a family that has a back end, a dispatcher call is one event.\<close>

lemma write_phy_trace:
  "backend_for (family soc) = Some b \<Longrightarrow>
   trace (snd (write_phy H soc port page reg val w)) = trace w @ [PhyWrite b port page reg val]"
  by (cases "family soc")
     (auto simp: write_phy_def call_write_phy_def trace_emit split: prod.splits)

lemma read_phy_trace:
  "backend_for (family soc) = Some b \<Longrightarrow>
   trace (snd (read_phy H soc port page reg val w)) = trace w @ [PhyRead b port page reg]"
  by (cases "family soc")
     (auto simp: read_phy_def call_read_phy_def trace_emit split: prod.splits)

lemma write_list_pairs_trace:
  "backend_for (family soc) = Some b \<Longrightarrow> write_list_pairs H soc port ws w = Some w1 \<Longrightarrow>
   trace w1 = trace w @ map (\<lambda>(r, v). PhyWrite b port 0xfff r v) (pairs_before_stop ws)"
  by (induction H soc port ws w rule: write_list_pairs.induct)
     (auto simp: write_phy_trace split: if_splits)




lemma broadcast_id_writes_trace:
  assumes "backend_for (family soc) = Some b"
  shows "trace (broadcast_id_writes H soc mac v w)
           = trace w @ [PhyWrite b mac 0xfff 0x1f 0x0000, PhyWrite b mac 0xfff 0x1d 0x0008,
                        PhyWrite b mac 0xfff 0x1f 0x0266, PhyWrite b mac 0xfff 0x16 v,
                        PhyWrite b mac 0xfff 0x1f 0x0000, PhyWrite b mac 0xfff 0x1d 0x0000,
                        Mdelay 1]"
  by (simp add: broadcast_id_writes_def Let_def write_phy_trace [OF assms] mdelay_trace)

lemma ext_rtl8218b_broadcast_patch_trace:
  assumes b: "backend_for (family soc) = Some b"
    and run: "ext_rtl8218b_broadcast_patch H soc mac perport ipd0 w = Some (ret, w1)"
  shows "ret = 0 \<and>
    trace w1 = trace w @
      [PhyWrite b mac 0xfff 0x1f 0x0000, PhyWrite b mac 0xfff 0x1d 0x0008,
       PhyWrite b mac 0xfff 0x1f 0x0266, PhyWrite b mac 0xfff 0x16 (0xff00 + mac),
       PhyWrite b mac 0xfff 0x1f 0x0000, PhyWrite b mac 0xfff 0x1d 0x0000, Mdelay 1] @
      [PhyWrite b mac 0xfff 30 8, PhyWrite b mac 0x26e 17 0xb, PhyWrite b mac 0x26e 16 0x2,
       Mdelay 1, PhyRead b mac 0x26e 19, PhyWrite b mac 0 30 0] @
      map (\<lambda>(r, v). PhyWrite b mac 0xfff r v) (pairs_before_stop perport) @
      [PhyWrite b mac 0xfff 0x1f 0x0000, PhyWrite b mac 0xfff 0x1d 0x0008,
       PhyWrite b mac 0xfff 0x1f 0x0266, PhyWrite b mac 0xfff 0x16 (0x00 + mac),
       PhyWrite b mac 0xfff 0x1f 0x0000, PhyWrite b mac 0xfff 0x1d 0x0000, Mdelay 1]"
proof -
  let ?w1 = "mdelay H 1 (snd (write_phy H soc mac 0x26e 16 0x2
               (snd (write_phy H soc mac 0x26e 17 0xb
                 (snd (write_phy H soc mac 0xfff 30 8
                   (broadcast_id_writes H soc mac (0xff00 + mac) w)))))))"
  let ?w2 = "snd (read_phy H soc mac 0x26e 19 ipd0 ?w1)"
  let ?w3 = "snd (write_phy H soc mac 0 30 0 ?w2)"
  from run obtain w4 where lst: "write_list_pairs H soc mac perport ?w3 = Some w4"
    and res: "ret = 0" "w1 = broadcast_id_writes H soc mac (0x00 + mac) w4"
    by (auto simp: ext_rtl8218b_broadcast_patch_def Let_def split_beta split: option.splits)
  have "trace ?w3 = trace w @
      [PhyWrite b mac 0xfff 0x1f 0x0000, PhyWrite b mac 0xfff 0x1d 0x0008,
       PhyWrite b mac 0xfff 0x1f 0x0266, PhyWrite b mac 0xfff 0x16 (0xff00 + mac),
       PhyWrite b mac 0xfff 0x1f 0x0000, PhyWrite b mac 0xfff 0x1d 0x0000, Mdelay 1] @
      [PhyWrite b mac 0xfff 30 8, PhyWrite b mac 0x26e 17 0xb, PhyWrite b mac 0x26e 16 0x2,
       Mdelay 1, PhyRead b mac 0x26e 19, PhyWrite b mac 0 30 0]"
    by (simp add: write_phy_trace [OF b] read_phy_trace [OF b] mdelay_trace
        broadcast_id_writes_trace [OF b])
  with write_list_pairs_trace [OF b lst] res show ?thesis
    by (simp add: broadcast_id_writes_trace [OF b])
qed

lemma configure_ext_reaches_broadcast:
  assumes "rtl8380_configure_ext_rtl8218b H soc L phydev req j w = Some (0, w1)"
  shows "\<exists>w0. ext_rtl8218b_broadcast_patch H soc (mdio_addr phydev)
                 (fw_region L (snd (rtl838x_request_fw L req)) 1) (junk_ipd j) w0
               = Some (0, w1)"
  using assms
  by (auto simp: rtl8380_configure_ext_rtl8218b_def Let_def split_beta
           split: if_splits option.splits)

lemma int_rtl8218b_patch_ports_trace:
  "backend_for (family soc) = Some b \<Longrightarrow>
   int_rtl8218b_patch_ports H soc mac perport hwesd ps w = Some w1 \<Longrightarrow>
   trace w1 = trace w @
     concat (map (\<lambda>p. map (\<lambda>(r, v). PhyWrite b (mac + of_nat p) 0xfff r v)
                          (pairs_before_stop perport @ pairs_before_stop hwesd)) ps)"
proof (induction ps arbitrary: w)
  case Nil
  then show ?case by simp
next
  case (Cons p ps)
  from Cons.prems(2) obtain wa wb
    where a: "write_list_pairs H soc (mac + of_nat p) perport w = Some wa"
      and b: "write_list_pairs H soc (mac + of_nat p) hwesd wa = Some wb"
      and c: "int_rtl8218b_patch_ports H soc mac perport hwesd ps wb = Some w1"
    by (auto split: option.splits)
  from Cons.IH [OF Cons.prems(1) c]
    write_list_pairs_trace [OF Cons.prems(1) a] write_list_pairs_trace [OF Cons.prems(1) b]
  show ?case by simp
qed

text \<open>
  When \<^verbatim>\<open>rtl8380_configure_int_rtl8218b\<close> returns 0, its trace ends with the
  writes of the two lists of firmware regions 8 and 9, for port after port.
\<close>

lemma configure_int_patches_ports:
  assumes b: "backend_for (family soc) = Some b"
    and run: "rtl8380_configure_int_rtl8218b H soc m L phydev req j w = Some (0, w1)"
  shows "\<exists>pre. trace w1 = pre @
     concat (map (\<lambda>p. map (\<lambda>(r, v). PhyWrite b (mdio_addr phydev + of_nat p) 0xfff r v)
                          (pairs_before_stop (fw_region L (snd (rtl838x_request_fw L req)) 8)
                             @ pairs_before_stop
                                 (fw_region L (snd (rtl838x_request_fw L req)) 9)))
                 [0..<8])"
proof -
  from run obtain w0
    where "int_rtl8218b_patch_ports H soc (mdio_addr phydev)
             (fw_region L (snd (rtl838x_request_fw L req)) 8)
             (fw_region L (snd (rtl838x_request_fw L req)) 9) [0..<8] w0 = Some w1"
    by (auto simp: rtl8380_configure_int_rtl8218b_def Let_def split_beta
             split: if_splits option.splits)
  from int_rtl8218b_patch_ports_trace [OF b this] show ?thesis
    by blast
qed




text \<open>
  Claim C8.  The family has a back end and \<^verbatim>\<open>rtl8380_configure_ext_rtl8218b\<close>
  returns 0.  Then the trace of the run ends with, in this order: the six writes that
  switch broadcast on, the fourth of which writes 0xff00 + mac to register 0x16, and
  a delay; the probe of \<^verbatim>\<open>ipd\<close>; the writes of the pairs of firmware region 1 up to
  its first pair with the register 0, in list order; the six writes that switch
  broadcast off, the fourth of which writes 0x00 + mac to register 0x16, and a delay.
\<close>

theorem ext_rtl8218b_broadcast_bracket:
  assumes "backend_for (family soc) = Some b"
    and "rtl8380_configure_ext_rtl8218b H soc L phydev req j w = Some (0, w1)"
  shows "\<exists>pre. trace w1 = pre @
      [PhyWrite b (mdio_addr phydev) 0xfff 0x1f 0x0000,
       PhyWrite b (mdio_addr phydev) 0xfff 0x1d 0x0008,
       PhyWrite b (mdio_addr phydev) 0xfff 0x1f 0x0266,
       PhyWrite b (mdio_addr phydev) 0xfff 0x16 (0xff00 + mdio_addr phydev),
       PhyWrite b (mdio_addr phydev) 0xfff 0x1f 0x0000,
       PhyWrite b (mdio_addr phydev) 0xfff 0x1d 0x0000,
       Mdelay 1] @
      [PhyWrite b (mdio_addr phydev) 0xfff 30 8,
       PhyWrite b (mdio_addr phydev) 0x26e 17 0xb,
       PhyWrite b (mdio_addr phydev) 0x26e 16 0x2,
       Mdelay 1,
       PhyRead b (mdio_addr phydev) 0x26e 19,
       PhyWrite b (mdio_addr phydev) 0 30 0] @
      map (\<lambda>(r, v). PhyWrite b (mdio_addr phydev) 0xfff r v)
        (pairs_before_stop (fw_region L (snd (rtl838x_request_fw L req)) 1)) @
      [PhyWrite b (mdio_addr phydev) 0xfff 0x1f 0x0000,
       PhyWrite b (mdio_addr phydev) 0xfff 0x1d 0x0008,
       PhyWrite b (mdio_addr phydev) 0xfff 0x1f 0x0266,
       PhyWrite b (mdio_addr phydev) 0xfff 0x16 (0x00 + mdio_addr phydev),
       PhyWrite b (mdio_addr phydev) 0xfff 0x1f 0x0000,
       PhyWrite b (mdio_addr phydev) 0xfff 0x1d 0x0000,
       Mdelay 1]"
proof -
  from configure_ext_reaches_broadcast [OF assms(2)] obtain w0
    where "ext_rtl8218b_broadcast_patch H soc (mdio_addr phydev)
             (fw_region L (snd (rtl838x_request_fw L req)) 1) (junk_ipd j) w0
           = Some (0, w1)"
    by blast
  from ext_rtl8218b_broadcast_patch_trace [OF assms(1) this]
  show ?thesis by blast
qed

text \<open>The run on the example image, with the external RTL8218B at address 0.\<close>

lemma example_offsetof_phy: "offsetof_phy example_layout = 4"
  by (simp add: example_layout_def)

lemma example_fw_region0:
  "fw_region example_layout (example_fw ck) 0
     = [1, 0x1e, 8, 0, 0, 0, 0x1f, 0x0b82, 0x10, 0x10, 0, 0, 0, 0]"
  by (simp add: fw_region_def part_start_def example_layout_def example_fw_def
      be16_def be32_def be_bytes_def)

lemma example_fw_region1:
  "fw_region example_layout (example_fw ck) (Suc 0) = [0x1f, 0x0b82, 0x10, 0x10, 0, 0, 0, 0]"
  by (simp add: fw_region_def part_start_def example_layout_def example_fw_def
      be16_def be32_def be_bytes_def)

lemma patch_ready_poll_rtl8218b:
  "patch_ready_poll rtl8218b_ops soc_rtl8380 port 0 val w
     = (0, 0x40, \<lparr>hw = (), trace = trace w @ [PhyRead RTL838X port 0xb80 0x10]\<rparr>)"
  by (subst patch_ready_poll.simps)
     (simp add: read_phy_def call_read_phy_def emit_def rtl8218b_ops_def soc_rtl8380_def)

lemma soc_rtl8380_family: "family soc_rtl8380 = RTL8380_FAMILY_ID"
  by (simp add: soc_rtl8380_def)

lemma rtl8218b_ops_fields:
  "hw_read_phy rtl8218b_ops h b port page reg val
     = ((0, if page = 31 \<and> reg = 28 then 0x6276
            else if page = 0xb80 \<and> reg = 0x10 then 0x40 else 0), h)"
  "hw_write_phy rtl8218b_ops h b port page reg val = (0, h)"
  "hw_delay rtl8218b_ops h n = h"
  by (simp_all add: rtl8218b_ops_def)

lemma upt_eight: "[0..<8] = [0, 1, 2, 3, 4, 5, 6, 7]"
  by code_simp

lemma example_run:
  "rtl8380_configure_ext_rtl8218b rtl8218b_ops soc_rtl8380 example_layout \<lparr>mdio_addr = 0\<rparr>
     (0, example_fw example_checksum) no_junk start0
   = Some (0, \<lparr>hw = (), trace =
        [PhyRead RTL838X 0 0 2, PhyRead RTL838X 0 0 3, PhyWrite RTL838X 0 31 27 2,
         PhyRead RTL838X 0 31 28, PhyRead RTL838X 0 0 0, PhyRead RTL838X 0 0 0,
         PhyWrite RTL838X 0 0 0 32768, Msleep 100, PhyWrite RTL838X 0 4095 31 0,
         PhyWrite RTL838X 0 4095 27 4, PhyRead RTL838X 0 4095 28,
         PhyWrite RTL838X 1 4095 30 8, PhyWrite RTL838X 0 4095 31 0,
         PhyWrite RTL838X 0 4095 0 4416, PhyWrite RTL838X 1 4095 31 0,
         PhyWrite RTL838X 1 4095 0 4416, PhyWrite RTL838X 2 4095 31 0,
         PhyWrite RTL838X 2 4095 0 4416, PhyWrite RTL838X 3 4095 31 0,
         PhyWrite RTL838X 3 4095 0 4416, PhyWrite RTL838X 4 4095 31 0,
         PhyWrite RTL838X 4 4095 0 4416, PhyWrite RTL838X 5 4095 31 0,
         PhyWrite RTL838X 5 4095 0 4416, PhyWrite RTL838X 6 4095 31 0,
         PhyWrite RTL838X 6 4095 0 4416, PhyWrite RTL838X 7 4095 31 0,
         PhyWrite RTL838X 7 4095 0 4416, Mdelay 100, PhyWrite RTL838X 0 4095 31 2946,
         PhyWrite RTL838X 0 4095 16 16, PhyWrite RTL838X 1 4095 31 2946,
         PhyWrite RTL838X 1 4095 16 16, PhyWrite RTL838X 2 4095 31 2946,
         PhyWrite RTL838X 2 4095 16 16, PhyWrite RTL838X 3 4095 31 2946,
         PhyWrite RTL838X 3 4095 16 16, PhyWrite RTL838X 4 4095 31 2946,
         PhyWrite RTL838X 4 4095 16 16, PhyWrite RTL838X 5 4095 31 2946,
         PhyWrite RTL838X 5 4095 16 16, PhyWrite RTL838X 6 4095 31 2946,
         PhyWrite RTL838X 6 4095 16 16, PhyWrite RTL838X 7 4095 31 2946,
         PhyWrite RTL838X 7 4095 16 16, Mdelay 300, PhyRead RTL838X 0 2944 16,
         PhyRead RTL838X 1 2944 16, PhyRead RTL838X 2 2944 16, PhyRead RTL838X 3 2944 16,
         PhyRead RTL838X 4 2944 16, PhyRead RTL838X 5 2944 16, PhyRead RTL838X 6 2944 16,
         PhyRead RTL838X 7 2944 16, PhyWrite RTL838X 0 4095 31 0,
         PhyWrite RTL838X 0 4095 29 8, PhyWrite RTL838X 0 4095 31 614,
         PhyWrite RTL838X 0 4095 22 65280, PhyWrite RTL838X 0 4095 31 0,
         PhyWrite RTL838X 0 4095 29 0, Mdelay 1, PhyWrite RTL838X 0 4095 30 8,
         PhyWrite RTL838X 0 622 17 11, PhyWrite RTL838X 0 622 16 2, Mdelay 1,
         PhyRead RTL838X 0 622 19, PhyWrite RTL838X 0 0 30 0,
         PhyWrite RTL838X 0 4095 31 2946, PhyWrite RTL838X 0 4095 16 16,
         PhyWrite RTL838X 0 4095 31 0, PhyWrite RTL838X 0 4095 29 8,
         PhyWrite RTL838X 0 4095 31 614, PhyWrite RTL838X 0 4095 22 0,
         PhyWrite RTL838X 0 4095 31 0, PhyWrite RTL838X 0 4095 29 0, Mdelay 1]\<rparr>)"
  by (simp add: rtl8380_configure_ext_rtl8218b_def ext_rtl8218b_broadcast_patch_def
      broadcast_id_writes_def write_two_each_def upt_eight patch_ready_poll_rtl8218b
      example_fw_valid example_fw_phy example_fw_region0 example_fw_region1
      rtl8380_int_phy_on_off_def rtl8380_phy_reset_def BIT_def shl32_def
      read_phy_def write_phy_def call_read_phy_def call_write_phy_def emit_def
      mdelay_def msleep_def rtl8218b_ops_fields soc_rtl8380_family no_junk_def start0_def
      example_offsetof_phy Let_def)

theorem ext_rtl8218b_broadcast_bracket_witness:
  "\<exists>pre w1.
     rtl8380_configure_ext_rtl8218b rtl8218b_ops soc_rtl8380 example_layout \<lparr>mdio_addr = 0\<rparr>
       (0, example_fw example_checksum) no_junk start0 = Some (0, w1) \<and>
     trace w1 = pre @
       [PhyWrite RTL838X 0 0xfff 0x1f 0x0000, PhyWrite RTL838X 0 0xfff 0x1d 0x0008,
        PhyWrite RTL838X 0 0xfff 0x1f 0x0266, PhyWrite RTL838X 0 0xfff 0x16 0xff00,
        PhyWrite RTL838X 0 0xfff 0x1f 0x0000, PhyWrite RTL838X 0 0xfff 0x1d 0x0000,
        Mdelay 1,
        PhyWrite RTL838X 0 0xfff 30 8, PhyWrite RTL838X 0 0x26e 17 0xb,
        PhyWrite RTL838X 0 0x26e 16 0x2, Mdelay 1, PhyRead RTL838X 0 0x26e 19,
        PhyWrite RTL838X 0 0 30 0,
        PhyWrite RTL838X 0 0xfff 0x1f 0x0b82, PhyWrite RTL838X 0 0xfff 0x10 0x0010,
        PhyWrite RTL838X 0 0xfff 0x1f 0x0000, PhyWrite RTL838X 0 0xfff 0x1d 0x0008,
        PhyWrite RTL838X 0 0xfff 0x1f 0x0266, PhyWrite RTL838X 0 0xfff 0x16 0x0000,
        PhyWrite RTL838X 0 0xfff 0x1f 0x0000, PhyWrite RTL838X 0 0xfff 0x1d 0x0000,
        Mdelay 1]"
proof -
  have b: "backend_for (family soc_rtl8380) = Some RTL838X"
    by (simp add: soc_rtl8380_def)
  from ext_rtl8218b_broadcast_bracket [OF b example_run]
  show ?thesis
    by (simp add: example_run example_fw_valid example_fw_region1)
qed

end
